theory Spec2Isabelle
  imports Main "HOL-Library.Word" "HOL-Library.Multiset"
begin

section \<open>JavaScript values used by the IMAP provider\<close>

text \<open>
  The IMAP provider of the temporary-mail service (\<^verbatim>\<open>src/providers/imap.ts\<close>) and its
  token codec (\<^verbatim>\<open>src/utils/crypto.ts\<close>) are embedded function by function.

  A JavaScript string is the list of its UTF-16 code units, and \<open>js\<close> gives the string of
  an ASCII literal; a \<^verbatim>\<open>Buffer\<close> is a list of bytes. A thrown \<^verbatim>\<open>Error\<close> is a value
  carrying its message, and a function that may throw returns a sum with the error on
  the left. A number that \<^verbatim>\<open>parseInt\<close> may return is a \<open>jsnum\<close>: an integer, an
  infinity or \<^verbatim>\<open>NaN\<close>. Times are integer milliseconds, as \<^verbatim>\<open>Date.now()\<close> and
  \<^verbatim>\<open>getTime()\<close> give them.
\<close>

type_synonym byte = "8 word"

type_synonym jsstring = "16 word list"

definition js :: "string \<Rightarrow> jsstring" where
  "js s = map of_char s"

datatype js_error = Error (message: jsstring)

datatype jsnum = Num int | PosInf | NegInf | NaN

subsection \<open>String operations\<close>

fun startsWith :: "jsstring \<Rightarrow> jsstring \<Rightarrow> bool" where
  "startsWith s [] = True"
| "startsWith [] (p # ps) = False"
| "startsWith (c # cs) (p # ps) = (c = p \<and> startsWith cs ps)"

fun includes_str :: "jsstring \<Rightarrow> jsstring \<Rightarrow> bool" where
  "includes_str [] needle = (needle = [])"
| "includes_str (c # cs) needle = (startsWith (c # cs) needle \<or> includes_str cs needle)"

fun index_of :: "'a \<Rightarrow> 'a list \<Rightarrow> nat option" where
  "index_of x [] = None"
| "index_of x (y # ys) = (if x = y then Some 0 else map_option Suc (index_of x ys))"

subsection \<open>Buffers: base64 and hex\<close>

text \<open>
  \<^verbatim>\<open>buf.toString('base64')\<close>: three bytes give four characters of the standard
  alphabet; a last group of one or two bytes is padded with \<^verbatim>\<open>=\<close>.
\<close>

definition b64chars :: string where
  "b64chars = ''ABCDEFGHIJKLMNOPQRSTUVWXYZabcdefghijklmnopqrstuvwxyz0123456789+/''"

definition b64char :: "nat \<Rightarrow> 16 word" where
  "b64char i = of_char (b64chars ! i)"

definition pad :: "16 word" where
  "pad = 0x3D"

fun base64_encode :: "byte list \<Rightarrow> jsstring" where
  "base64_encode (a # b # c # rest) =
     [b64char (unat a div 4),
      b64char ((unat a mod 4) * 16 + unat b div 16),
      b64char ((unat b mod 16) * 4 + unat c div 64),
      b64char (unat c mod 64)] @ base64_encode rest"
| "base64_encode [a, b] =
     [b64char (unat a div 4),
      b64char ((unat a mod 4) * 16 + unat b div 16),
      b64char ((unat b mod 16) * 4),
      pad]"
| "base64_encode [a] =
     [b64char (unat a div 4),
      b64char ((unat a mod 4) * 16),
      pad, pad]"
| "base64_encode [] = []"

text \<open>
  \<^verbatim>\<open>Buffer.from(text, 'base64')\<close> never throws. Node's decoder looks at the low byte of
  each code unit. It reads up to the first \<^verbatim>\<open>=\<close>, skips every byte outside the
  alphabet (the URL-safe \<^verbatim>\<open>-\<close> and \<^verbatim>\<open>_\<close> count as 62 and 63), and turns each group
  of four six-bit values into three bytes; a last group of two or three values gives one
  or two bytes, and the bits left over in its last value are dropped.
\<close>

definition low_byte :: "16 word \<Rightarrow> char" where
  "low_byte u = char_of (uint u)"

definition unbase64 :: "char \<Rightarrow> nat option" where
  "unbase64 c =
     (if c = CHR ''-'' then Some 62
      else if c = CHR ''_'' then Some 63
      else index_of c b64chars)"

definition base64_sextets :: "jsstring \<Rightarrow> nat list" where
  "base64_sextets s =
     List.map_filter unbase64 (takeWhile (\<lambda>c. c \<noteq> CHR ''='') (map low_byte s))"

fun base64_decode_groups :: "nat list \<Rightarrow> byte list" where
  "base64_decode_groups (a # b # c # d # rest) =
     [of_nat (a * 4 + b div 16),
      of_nat ((b mod 16) * 16 + c div 4),
      of_nat ((c mod 4) * 64 + d)] @ base64_decode_groups rest"
| "base64_decode_groups [a, b, c] =
     [of_nat (a * 4 + b div 16), of_nat ((b mod 16) * 16 + c div 4)]"
| "base64_decode_groups [a, b] = [of_nat (a * 4 + b div 16)]"
| "base64_decode_groups [a] = []"
| "base64_decode_groups [] = []"

definition base64_decode :: "jsstring \<Rightarrow> byte list" where
  "base64_decode s = base64_decode_groups (base64_sextets s)"

text \<open>
  Hex text, as \<^verbatim>\<open>cipher.update(_, 'utf8', 'hex')\<close> writes it and
  \<^verbatim>\<open>Buffer.from(_, 'hex')\<close> reads it: two digits a byte, reading stops at the first
  pair that is not two hex digits.
\<close>

definition hexchar :: "nat \<Rightarrow> 16 word" where
  "hexchar i = of_char (''0123456789abcdef'' ! i)"

definition unhex :: "char \<Rightarrow> nat option" where
  "unhex c =
     (case index_of c ''0123456789abcdef'' of
        Some i \<Rightarrow> Some i
      | None \<Rightarrow> map_option (\<lambda>i. i + 10) (index_of c ''ABCDEF''))"

fun hex_encode :: "byte list \<Rightarrow> jsstring" where
  "hex_encode [] = []"
| "hex_encode (b # bs) = hexchar (unat b div 16) # hexchar (unat b mod 16) # hex_encode bs"

fun hex_decode :: "jsstring \<Rightarrow> byte list" where
  "hex_decode (h # l # rest) =
     (case unhex (low_byte h) of
        None \<Rightarrow> []
      | Some hi \<Rightarrow>
          (case unhex (low_byte l) of
             None \<Rightarrow> []
           | Some lo \<Rightarrow> of_nat (hi * 16 + lo) # hex_decode rest))"
| "hex_decode [c] = []"
| "hex_decode [] = []"

subsection \<open>Sessions and the runtime library\<close>

text \<open>
  \<^verbatim>\<open>ImapConfig\<close> and \<^verbatim>\<open>ImapSession\<close> of \<^verbatim>\<open>src/types/email.ts\<close>; an optional field is an
  option. The \<^verbatim>\<open>timestamp\<close> is the field \<^verbatim>\<open>generateAccessToken\<close> adds to the session.
\<close>

record ImapConfig =
  domain :: jsstring
  imap_server :: jsstring
  imap_port :: "int option"
  imap_user :: jsstring
  imap_pass :: jsstring
  imap_dir :: "jsstring option"

record ImapSession =
  tempEmailAddress :: jsstring
  imapConfig :: ImapConfig
  timestamp :: "int option"

text \<open>
  The provider calls into the JavaScript runtime and Node's \<^verbatim>\<open>crypto\<close> module, which
  are not part of the repository. They are a parameter of the model:
  \<^item> \<open>JSON_stringify\<close>, \<open>JSON_parse\<close>: \<^verbatim>\<open>JSON.stringify\<close> on a session and
    \<^verbatim>\<open>JSON.parse\<close> on a text that denotes a session (or is rejected);
  \<^item> \<open>utf8_encode\<close>, \<open>utf8_decode\<close>: string to \<^verbatim>\<open>Buffer\<close> and back;
  \<^item> \<open>sha256\<close>: \<^verbatim>\<open>createHash('sha256').update(_).digest()\<close>;
  \<^item> \<open>gcm_encrypt key iv plaintext\<close>: the ciphertext and the authentication tag of
    \<^verbatim>\<open>createCipheriv('aes-256-gcm', key, iv)\<close>;
  \<^item> \<open>gcm_decrypt key iv tag ciphertext\<close>: the plaintext of
    \<^verbatim>\<open>createDecipheriv('aes-256-gcm', key, iv)\<close> after \<^verbatim>\<open>setAuthTag(tag)\<close>, or the
    error thrown by the module (by \<^verbatim>\<open>final()\<close> when the tag does not verify);
  \<^item> \<open>toLowerCase\<close>: \<^verbatim>\<open>String.prototype.toLowerCase\<close>;
  \<^item> \<open>parseInt\<close>: \<^verbatim>\<open>parseInt(_, 10)\<close>;
  \<^item> \<open>num_toString\<close>: the text of a number, as \<^verbatim>\<open>toString()\<close> and template
    literals give it.
\<close>

record node_lib =
  JSON_stringify :: "ImapSession \<Rightarrow> jsstring"
  JSON_parse :: "jsstring \<Rightarrow> js_error + ImapSession"
  utf8_encode :: "jsstring \<Rightarrow> byte list"
  utf8_decode :: "byte list \<Rightarrow> jsstring"
  sha256 :: "byte list \<Rightarrow> byte list"
  gcm_encrypt :: "byte list \<Rightarrow> byte list \<Rightarrow> byte list \<Rightarrow> byte list \<times> byte list"
  gcm_decrypt :: "byte list \<Rightarrow> byte list \<Rightarrow> byte list \<Rightarrow> byte list \<Rightarrow> js_error + byte list"
  toLowerCase :: "jsstring \<Rightarrow> jsstring"
  parseInt :: "jsstring \<Rightarrow> jsnum"
  num_toString :: "jsnum \<Rightarrow> jsstring"

section \<open>The token codec (\<^verbatim>\<open>CryptoUtil\<close>)\<close>

text \<open>
  \<open>encryptImapSession\<close>: \<open>iv\<close> stands for the bytes \<^verbatim>\<open>crypto.randomBytes(16)\<close> returned
  in this call. The token is the base64 text of IV, tag and ciphertext, in this order.
\<close>

definition encryptImapSession :: "node_lib \<Rightarrow> byte list \<Rightarrow> ImapSession \<Rightarrow> jsstring \<Rightarrow> jsstring" where
  "encryptImapSession L iv session secretKey =
     (let key = sha256 L (utf8_encode L secretKey);
          plaintext = JSON_stringify L session;
          sealed = gcm_encrypt L key iv (utf8_encode L plaintext);
          encrypted = hex_encode (fst sealed);
          authTag = snd sealed;
          combined = iv @ authTag @ hex_decode encrypted
      in base64_encode combined)"

definition decryptImapSession :: "node_lib \<Rightarrow> jsstring \<Rightarrow> jsstring \<Rightarrow> js_error + ImapSession" where
  "decryptImapSession L token secretKey =
     (let combined = base64_decode token;
          iv = take 16 combined;
          authTag = take 16 (drop 16 combined);
          encrypted = drop 32 combined;
          key = sha256 L (utf8_encode L secretKey)
      in case gcm_decrypt L key iv authTag (hex_decode (hex_encode encrypted)) of
           Inl e \<Rightarrow> Inl e
         | Inr decrypted \<Rightarrow> JSON_parse L (utf8_decode L decrypted))"

definition encodeImapSession :: "node_lib \<Rightarrow> ImapSession \<Rightarrow> jsstring" where
  "encodeImapSession L session = base64_encode (utf8_encode L (JSON_stringify L session))"

definition decodeImapSession :: "node_lib \<Rightarrow> jsstring \<Rightarrow> js_error + ImapSession" where
  "decodeImapSession L token = JSON_parse L (utf8_decode L (base64_decode token))"

text \<open>
  What the round trip asks of the runtime. A session is \<open>json_faithful\<close> when
  \<^verbatim>\<open>JSON.parse\<close> gives it back from the UTF-8 bytes of its \<^verbatim>\<open>JSON.stringify\<close> text (a
  session whose port is \<^verbatim>\<open>NaN\<close> is not). \<open>cipher_inverts\<close> says that the decipher,
  given the key, the IV and the 16-byte tag of this encryption, returns the plaintext.
\<close>

definition json_faithful :: "node_lib \<Rightarrow> ImapSession \<Rightarrow> bool" where
  "json_faithful L S =
     (JSON_parse L (utf8_decode L (utf8_encode L (JSON_stringify L S))) = Inr S)"

definition cipher_inverts :: "node_lib \<Rightarrow> jsstring \<Rightarrow> byte list \<Rightarrow> ImapSession \<Rightarrow> bool" where
  "cipher_inverts L secretKey iv S =
     (let key = sha256 L (utf8_encode L secretKey);
          plain = utf8_encode L (JSON_stringify L S);
          sealed = gcm_encrypt L key iv plain
      in length (snd sealed) = 16 \<and>
         gcm_decrypt L key iv (snd sealed) (fst sealed) = Inr plain)"


section \<open>Access tokens\<close>

text \<open>
  The three environment variables the provider reads; an unset variable is \<open>None\<close>.
\<close>

record process_env =
  IMAP_ENCRYPT_TOKEN :: "jsstring option"
  IMAP_ENCRYPTION_KEY :: "jsstring option"
  IMAP_TOKEN_TTL_HOURS :: "jsstring option"

definition msg_key_missing_encode :: jsstring where
  "msg_key_missing_encode = js ''IMAP_ENCRYPTION_KEY '' @ [0x73AF, 0x5883, 0x53D8, 0x91CF, 0x672A, 0x8BBE, 0x7F6E, 0xFF08, 0x542F, 0x7528, 0x52A0, 0x5BC6, 0x65F6, 0x5FC5, 0x987B, 0x8BBE, 0x7F6E, 0xFF09]"

definition msg_key_missing_decode :: jsstring where
  "msg_key_missing_decode = js ''IMAP_ENCRYPTION_KEY '' @ [0x73AF, 0x5883, 0x53D8, 0x91CF, 0x672A, 0x8BBE, 0x7F6E]"

definition msg_invalid_token :: jsstring where
  "msg_invalid_token = [0x65E0, 0x6548, 0x7684] @ js '' accessToken''"

definition expired_marker :: jsstring where
  "expired_marker = [0x5DF2, 0x8FC7, 0x671F]"

definition msg_expired :: "node_lib \<Rightarrow> jsnum \<Rightarrow> jsstring" where
  "msg_expired L ttlHours =
     js ''accessToken '' @ expired_marker @ [0xFF08, 0x6709, 0x6548, 0x671F] @ js '' '' @
     num_toString L ttlHours @
     js '' '' @ [0x5C0F, 0x65F6, 0xFF09, 0xFF0C, 0x8BF7, 0x91CD, 0x65B0, 0x521B, 0x5EFA, 0x90AE, 0x7BB1]"

text \<open>
  \<open>generateAccessToken\<close>: \<open>now\<close> is the value of \<^verbatim>\<open>Date.now()\<close> in this call and
  \<open>iv\<close> the bytes \<^verbatim>\<open>randomBytes(16)\<close> returns in it.
\<close>

definition generateAccessToken ::
  "node_lib \<Rightarrow> process_env \<Rightarrow> int \<Rightarrow> byte list \<Rightarrow> ImapConfig \<Rightarrow> jsstring \<Rightarrow> js_error + jsstring" where
  "generateAccessToken L env now iv config tempEmailAddress' =
     (let encryptEnabled = (IMAP_ENCRYPT_TOKEN env = Some (js ''true''));
          session = \<lparr>tempEmailAddress = tempEmailAddress', imapConfig = config,
                     timestamp = Some now\<rparr>
      in if encryptEnabled then
           (case IMAP_ENCRYPTION_KEY env of
              None \<Rightarrow> Inl (Error msg_key_missing_encode)
            | Some encryptionKey \<Rightarrow>
                if encryptionKey = [] then Inl (Error msg_key_missing_encode)
                else Inr (encryptImapSession L iv session encryptionKey))
         else Inr (encodeImapSession L session))"

text \<open>
  Comparisons and products of numbers: every comparison with \<^verbatim>\<open>NaN\<close> is false, and
  a product with \<^verbatim>\<open>NaN\<close> is \<^verbatim>\<open>NaN\<close>.
\<close>

definition jsnum_less :: "jsnum \<Rightarrow> jsnum \<Rightarrow> bool" where
  "jsnum_less a b =
     (case a of
        Num x \<Rightarrow> (case b of Num y \<Rightarrow> x < y | PosInf \<Rightarrow> True | NegInf \<Rightarrow> False | NaN \<Rightarrow> False)
      | NegInf \<Rightarrow> (case b of Num y \<Rightarrow> True | PosInf \<Rightarrow> True | NegInf \<Rightarrow> False | NaN \<Rightarrow> False)
      | PosInf \<Rightarrow> False
      | NaN \<Rightarrow> False)"

definition jsnum_le :: "jsnum \<Rightarrow> jsnum \<Rightarrow> bool" where
  "jsnum_le a b = (jsnum_less a b \<or> (a = b \<and> a \<noteq> NaN))"

definition jsnum_gt :: "jsnum \<Rightarrow> jsnum \<Rightarrow> bool" where
  "jsnum_gt a b = jsnum_less b a"

definition jsnum_times :: "jsnum \<Rightarrow> int \<Rightarrow> jsnum" where
  "jsnum_times a k =
     (case a of
        Num x \<Rightarrow> Num (x * k)
      | PosInf \<Rightarrow> (if 0 < k then PosInf else if k < 0 then NegInf else NaN)
      | NegInf \<Rightarrow> (if 0 < k then NegInf else if k < 0 then PosInf else NaN)
      | NaN \<Rightarrow> NaN)"

text \<open>
  \<open>validateTokenExpiration\<close>: \<open>now\<close> is \<^verbatim>\<open>Date.now()\<close>. The test
  \<^verbatim>\<open>!session.timestamp\<close> holds for a missing timestamp and for the number 0.
\<close>

definition configured_ttl :: "node_lib \<Rightarrow> process_env \<Rightarrow> jsnum" where
  "configured_ttl L env =
     parseInt L (case IMAP_TOKEN_TTL_HOURS env of
                 None \<Rightarrow> js ''0''
               | Some text \<Rightarrow> if text = [] then js ''0'' else text)"

definition validateTokenExpiration ::
  "node_lib \<Rightarrow> process_env \<Rightarrow> int \<Rightarrow> ImapSession \<Rightarrow> js_error + unit" where
  "validateTokenExpiration L env now session =
     (let ttlHours = configured_ttl L env
      in if jsnum_le ttlHours (Num 0) then Inr ()
         else
           (case timestamp session of
              None \<Rightarrow> Inr ()
            | Some issued \<Rightarrow>
                if issued = 0 then Inr ()
                else
                  (let tokenAge = now - issued;
                       ttlMs = jsnum_times ttlHours (60 * 60 * 1000)
                   in if jsnum_gt (Num tokenAge) ttlMs then Inl (Error (msg_expired L ttlHours))
                      else Inr ())))"


text \<open>
  \<open>parseAccessToken\<close>: every error thrown while decoding or validating is caught; an
  error whose message contains the expiry marker is thrown again as it is, any other is
  replaced by the invalid-token error.
\<close>

definition rethrow_token_error :: "js_error \<Rightarrow> js_error" where
  "rethrow_token_error e =
     (if includes_str (message e) expired_marker then e else Error msg_invalid_token)"

definition parseAccessToken ::
  "node_lib \<Rightarrow> process_env \<Rightarrow> int \<Rightarrow> jsstring \<Rightarrow> js_error + ImapSession" where
  "parseAccessToken L env now token =
     (let encryptEnabled = (IMAP_ENCRYPT_TOKEN env = Some (js ''true''));
          decoded =
            (if encryptEnabled then
               (case IMAP_ENCRYPTION_KEY env of
                  None \<Rightarrow> Inl (Error msg_key_missing_decode)
                | Some encryptionKey \<Rightarrow>
                    if encryptionKey = [] then Inl (Error msg_key_missing_decode)
                    else decryptImapSession L token encryptionKey)
             else decodeImapSession L token)
      in case decoded of
           Inl e \<Rightarrow> Inl (rethrow_token_error e)
         | Inr session \<Rightarrow>
             (case validateTokenExpiration L env now session of
                Inl e \<Rightarrow> Inl (rethrow_token_error e)
              | Inr u \<Rightarrow> Inr session))"




section \<open>Messages and the mailbox listing\<close>

text \<open>
  A string that may be missing is an option; \<open>truthy\<close> is JavaScript's test of such a
  value in a condition (missing and the empty string fail it) and \<open>str_or\<close> is
  \<^verbatim>\<open>value || fallback\<close>.
\<close>

definition truthy :: "jsstring option \<Rightarrow> bool" where
  "truthy v = (case v of None \<Rightarrow> False | Some s \<Rightarrow> s \<noteq> [])"

definition str_or :: "jsstring option \<Rightarrow> jsstring \<Rightarrow> jsstring" where
  "str_or v fallback = (case v of None \<Rightarrow> fallback | Some s \<Rightarrow> if s = [] then fallback else s)"

text \<open>The address objects and the envelope the IMAP client returns for a message.\<close>

record Address =
  name :: "jsstring option"
  address :: "jsstring option"

record Envelope =
  env_from :: "Address list option"
  env_to :: "Address list option"
  env_cc :: "Address list option"
  env_bcc :: "Address list option"
  env_subject :: "jsstring option"
  env_messageId :: "jsstring option"

record EmailContact =
  email :: jsstring
  contact_name :: "jsstring option"

record EmailAttachment =
  att_id :: jsstring
  filename :: jsstring
  contentType :: jsstring
  att_size :: int
  inline :: bool
  contentId :: "jsstring option"

record EmailMessage =
  msg_id :: jsstring
  msg_from :: EmailContact
  msg_to :: "EmailContact list"
  msg_cc :: "EmailContact list option"
  msg_subject :: jsstring
  textContent :: "jsstring option"
  htmlContent :: "jsstring option"
  attachments :: "EmailAttachment list option"
  receivedAt :: int
  isRead :: bool
  msg_size :: "int option"
  provider :: jsstring
  messageId :: "jsstring option"

definition unknown_email :: jsstring where
  "unknown_email = js ''unknown@unknown.com''"

definition no_subject :: jsstring where
  "no_subject = js ''('' @ [0x65E0, 0x4E3B, 0x9898] @ js '')''"

definition parseEmailContact :: "Address option \<Rightarrow> EmailContact" where
  "parseEmailContact addr =
     (case addr of
        None \<Rightarrow> \<lparr>email = unknown_email, contact_name = None\<rparr>
      | Some a \<Rightarrow> \<lparr>email = str_or (address a) unknown_email, contact_name = name a\<rparr>)"

text \<open>
  The MIME structure tree of a message (\<^verbatim>\<open>bodyStructure\<close>). The fields are those the
  provider reads: \<^verbatim>\<open>type\<close>, \<^verbatim>\<open>subtype\<close>, \<^verbatim>\<open>part\<close>, \<^verbatim>\<open>disposition\<close>,
  \<^verbatim>\<open>dispositionParameters.filename\<close>, \<^verbatim>\<open>parameters.name\<close>, \<^verbatim>\<open>size\<close>, \<^verbatim>\<open>id\<close> and
  \<^verbatim>\<open>childNodes\<close> (an array, when there is one).
\<close>

datatype BodyStructure =
  BodyStructure
    (node_type: "jsstring option")
    (subtype: "jsstring option")
    (part: "jsstring option")
    (disposition: "jsstring option")
    (disposition_filename: "jsstring option")
    (parameters_name: "jsstring option")
    (node_size: "int option")
    (node_id: "jsstring option")
    (childNodes: "BodyStructure list option")

text \<open>A message as \<^verbatim>\<open>client.fetch\<close> and \<^verbatim>\<open>client.fetchOne\<close> deliver it.\<close>

record FetchedMessage =
  uid :: nat
  envelope :: Envelope
  internalDate :: "int option"
  flags :: "jsstring list option"
  fetched_size :: "int option"
  bodyStructure :: "BodyStructure option"
  source :: "jsstring option"

text \<open>
  The calls made on the IMAP client, each returning its result or the error it throws.
  \<open>search_since\<close> is \<^verbatim>\<open>search({since})\<close>, whose result is an array of identifiers or
  a falsy value. \<open>fetch\<close> gives the messages of the asynchronous iteration, each with the
  reading \<^verbatim>\<open>new Date()\<close> has while that message is handled. \<open>fetchOne\<close> and
  \<open>download\<close> are called in UID mode; \<open>download\<close> gives the text read from the
  content stream, if there is one.
\<close>

record imap_client =
  mailboxOpen :: "jsstring \<Rightarrow> js_error + unit"
  search_since :: "int \<Rightarrow> js_error + nat list option"
  fetch :: "nat list \<Rightarrow> js_error + (int \<times> FetchedMessage) list"
  fetchOne :: "jsnum \<Rightarrow> js_error + FetchedMessage option"
  download :: "jsnum \<Rightarrow> jsstring \<Rightarrow> js_error + jsstring option"

definition lowered_addresses :: "node_lib \<Rightarrow> Address list option \<Rightarrow> jsstring option list" where
  "lowered_addresses L as =
     (case as of
        None \<Rightarrow> []
      | Some xs \<Rightarrow> map (\<lambda>addr. map_option (toLowerCase L) (address addr)) xs)"

definition allRecipients :: "node_lib \<Rightarrow> Envelope \<Rightarrow> jsstring option list" where
  "allRecipients L e =
     lowered_addresses L (env_to e) @ lowered_addresses L (env_cc e) @
     lowered_addresses L (env_bcc e)"

definition has_seen_flag :: "jsstring list option \<Rightarrow> bool" where
  "has_seen_flag fl = (case fl of None \<Rightarrow> False | Some xs \<Rightarrow> [0x005C] @ js ''Seen'' \<in> set xs)"

text \<open>The summary pushed for a message that passes both checks of the loop.\<close>

definition summarise :: "node_lib \<Rightarrow> int \<Rightarrow> FetchedMessage \<Rightarrow> EmailMessage" where
  "summarise L receivedAt' msg =
     \<lparr>msg_id = num_toString L (Num (int (uid msg))),
      msg_from = parseEmailContact
                   (case env_from (envelope msg) of
                      None \<Rightarrow> None
                    | Some xs \<Rightarrow> (case xs of [] \<Rightarrow> None | a # rest \<Rightarrow> Some a)),
      msg_to = (case env_to (envelope msg) of
                  None \<Rightarrow> []
                | Some xs \<Rightarrow> map (\<lambda>addr. parseEmailContact (Some addr)) xs),
      msg_cc = map_option (map (\<lambda>addr. parseEmailContact (Some addr))) (env_cc (envelope msg)),
      msg_subject = str_or (env_subject (envelope msg)) no_subject,
      textContent = None,
      htmlContent = None,
      attachments = None,
      receivedAt = receivedAt',
      isRead = has_seen_flag (flags msg),
      msg_size = fetched_size msg,
      provider = js ''imap'',
      messageId = env_messageId (envelope msg)\<rparr>"

text \<open>
  The body of the \<^verbatim>\<open>for await\<close> loop of \<open>fetchRecentMessages\<close>: a message older than
  \<open>since\<close> is skipped, then a message none of whose To, Cc and Bcc addresses, in lower
  case, is the temporary address in lower case; the others are pushed.
\<close>

fun collectMessages ::
  "node_lib \<Rightarrow> int \<Rightarrow> jsstring \<Rightarrow> (int \<times> FetchedMessage) list \<Rightarrow> EmailMessage list
     \<Rightarrow> EmailMessage list" where
  "collectMessages L since tempEmailAddress' [] messages = messages"
| "collectMessages L since tempEmailAddress' ((clock, msg) # rest) messages =
     (let receivedAt' = (case internalDate msg of None \<Rightarrow> clock | Some d \<Rightarrow> d)
      in if receivedAt' < since then collectMessages L since tempEmailAddress' rest messages
         else
           (let tempEmailLower = toLowerCase L tempEmailAddress'
            in if Some tempEmailLower \<notin> set (allRecipients L (envelope msg))
               then collectMessages L since tempEmailAddress' rest messages
               else collectMessages L since tempEmailAddress' rest
                      (messages @ [summarise L receivedAt' msg])))"

text \<open>
  \<open>fetchRecentMessages\<close>: \<open>now\<close> is \<^verbatim>\<open>Date.now()\<close> at entry. The comparator of
  \<^verbatim>\<open>messages.sort\<close> orders by descending \<^verbatim>\<open>receivedAt\<close>; the sort is stable, which is
  what \<open>sort_key\<close> on the negated time computes.
\<close>

definition fetchRecentMessages ::
  "node_lib \<Rightarrow> imap_client \<Rightarrow> int \<Rightarrow> jsstring \<Rightarrow> js_error + EmailMessage list" where
  "fetchRecentMessages L client now tempEmailAddress' =
     (let since = now - 24 * 60 * 60 * 1000
      in case search_since client since of
           Inl e \<Rightarrow> Inl e
         | Inr searchResults \<Rightarrow>
             (case searchResults of
                None \<Rightarrow> Inr []
              | Some uids \<Rightarrow>
                  if uids = [] then Inr []
                  else
                    (case fetch client uids of
                       Inl e \<Rightarrow> Inl e
                     | Inr fetched \<Rightarrow>
                         Inr (sort_key (\<lambda>m. - receivedAt m)
                                (collectMessages L since tempEmailAddress' fetched [])))))"


text \<open>
  The listing rule as the specification words it. The date that counts for a message is
  its internal date (the clock reading when it has none); a message is addressed to the
  temporary address when one of its To, Cc and Bcc addresses equals it once both are in
  lower case (the runtime's \<open>toLowerCase\<close>); a message survives when it is not older than the cutoff and is addressed to
  the temporary address.
\<close>

definition effective_date :: "int \<Rightarrow> FetchedMessage \<Rightarrow> int" where
  "effective_date clock msg = (case internalDate msg of None \<Rightarrow> clock | Some d \<Rightarrow> d)"

definition recipient_addresses :: "Envelope \<Rightarrow> Address list" where
  "recipient_addresses e =
     (case env_to e of None \<Rightarrow> [] | Some xs \<Rightarrow> xs) @
     (case env_cc e of None \<Rightarrow> [] | Some xs \<Rightarrow> xs) @
     (case env_bcc e of None \<Rightarrow> [] | Some xs \<Rightarrow> xs)"

definition addressed_to :: "node_lib \<Rightarrow> jsstring \<Rightarrow> Envelope \<Rightarrow> bool" where
  "addressed_to L temporaryAddress e =
     list_ex
       (\<lambda>a. case address a of
              None \<Rightarrow> False
            | Some s \<Rightarrow> toLowerCase L s = toLowerCase L temporaryAddress)
       (recipient_addresses e)"

definition survives :: "node_lib \<Rightarrow> int \<Rightarrow> jsstring \<Rightarrow> int \<times> FetchedMessage \<Rightarrow> bool" where
  "survives L cutoff temporaryAddress cm =
     (cutoff \<le> effective_date (fst cm) (snd cm) \<and>
      addressed_to L temporaryAddress (envelope (snd cm)))"

definition summary_of :: "node_lib \<Rightarrow> int \<times> FetchedMessage \<Rightarrow> EmailMessage" where
  "summary_of L cm = summarise L (effective_date (fst cm) (snd cm)) (snd cm)"

section \<open>The structure tree: body parts and attachments\<close>

text \<open>
  The full MIME type of a node, as \<open>findBodyPart\<close> and \<open>findAttachments\<close> both
  compute it in their first lines (\<^verbatim>\<open>typeStr\<close>, \<^verbatim>\<open>subtypeStr\<close>, \<^verbatim>\<open>fullType\<close>).
\<close>

definition fullType_of :: "node_lib \<Rightarrow> BodyStructure \<Rightarrow> jsstring" where
  "fullType_of L n =
     (let typeStr = str_or (map_option (toLowerCase L) (node_type n)) []
      in if includes_str typeStr (js ''/'') then typeStr
         else
           (let subtypeStr = str_or (map_option (toLowerCase L) (subtype n)) []
            in if subtypeStr \<noteq> [] then typeStr @ js ''/'' @ subtypeStr else typeStr))"

text \<open>
  \<open>findBodyPart\<close>. The loop over \<^verbatim>\<open>childNodes\<close> is \<open>findBodyPart_children\<close>; a result
  is returned from the loop when it is truthy.
\<close>

fun findBodyPart_node :: "node_lib \<Rightarrow> BodyStructure \<Rightarrow> jsstring \<Rightarrow> jsstring option"
  and findBodyPart_children :: "node_lib \<Rightarrow> BodyStructure list \<Rightarrow> jsstring \<Rightarrow> jsstring option" where
  "findBodyPart_node L (BodyStructure ty sub prt disp fname pname sz cid kids) mimeType =
     (let fullType = fullType_of L (BodyStructure ty sub prt disp fname pname sz cid kids)
      in if fullType = toLowerCase L mimeType then Some (str_or prt (js ''1''))
         else if startsWith fullType (js ''multipart/'') then
           (case kids of
              None \<Rightarrow> None
            | Some children \<Rightarrow> findBodyPart_children L children mimeType)
         else None)"
| "findBodyPart_children L [] mimeType = None"
| "findBodyPart_children L (childNode # rest) mimeType =
     (let result = findBodyPart_node L childNode mimeType
      in if truthy result then result else findBodyPart_children L rest mimeType)"

definition findBodyPart :: "node_lib \<Rightarrow> BodyStructure option \<Rightarrow> jsstring \<Rightarrow> jsstring option" where
  "findBodyPart L structure mimeType =
     (case structure of None \<Rightarrow> None | Some n \<Rightarrow> findBodyPart_node L n mimeType)"

text \<open>
  \<open>findAttachments\<close>. The array \<^verbatim>\<open>attachments\<close> is threaded through the recursion;
  \<^verbatim>\<open>push\<close> appends at its end, and \<open>k\<close> is \<^verbatim>\<open>attachments.length\<close> at the push.
\<close>

definition is_attachment :: "node_lib \<Rightarrow> BodyStructure \<Rightarrow> bool" where
  "is_attachment L n =
     (let disposition' = map_option (toLowerCase L) (disposition n)
      in disposition' = Some (js ''attachment'') \<or> disposition' = Some (js ''inline'') \<or>
         truthy (disposition_filename n) \<or> truthy (parameters_name n))"

definition is_text_content :: "node_lib \<Rightarrow> BodyStructure \<Rightarrow> bool" where
  "is_text_content L n =
     (fullType_of L n = js ''text/plain'' \<or> fullType_of L n = js ''text/html'')"

definition attachment_entry :: "node_lib \<Rightarrow> BodyStructure \<Rightarrow> nat \<Rightarrow> EmailAttachment" where
  "attachment_entry L n k =
     \<lparr>att_id = str_or (part n) (num_toString L (Num (int k + 1))),
      filename =
        str_or (disposition_filename n)
          (str_or (parameters_name n) (js ''attachment-'' @ num_toString L (Num (int k + 1)))),
      contentType = fullType_of L n,
      att_size = (case node_size n of None \<Rightarrow> 0 | Some s \<Rightarrow> s),
      inline = (map_option (toLowerCase L) (disposition n) = Some (js ''inline'')),
      contentId = node_id n\<rparr>"

fun findAttachments_node ::
    "node_lib \<Rightarrow> BodyStructure \<Rightarrow> EmailAttachment list \<Rightarrow> EmailAttachment list"
  and findAttachments_children ::
    "node_lib \<Rightarrow> BodyStructure list \<Rightarrow> EmailAttachment list \<Rightarrow> EmailAttachment list" where
  "findAttachments_node L (BodyStructure ty sub prt disp fname pname sz cid kids) attachments' =
     (let n = BodyStructure ty sub prt disp fname pname sz cid kids;
          pushed = (if is_attachment L n \<and> \<not> is_text_content L n
                    then attachments' @ [attachment_entry L n (length attachments')]
                    else attachments')
      in if startsWith (fullType_of L n) (js ''multipart/'') then
           (case kids of
              None \<Rightarrow> pushed
            | Some children \<Rightarrow> findAttachments_children L children pushed)
         else pushed)"
| "findAttachments_children L [] attachments' = attachments'"
| "findAttachments_children L (childNode # rest) attachments' =
     findAttachments_children L rest (findAttachments_node L childNode attachments')"

definition findAttachments ::
  "node_lib \<Rightarrow> BodyStructure option \<Rightarrow> EmailAttachment list \<Rightarrow> EmailAttachment list" where
  "findAttachments L structure attachments' =
     (case structure of None \<Rightarrow> attachments' | Some n \<Rightarrow> findAttachments_node L n attachments')"

subsection \<open>The two searches as the specification words them\<close>

text \<open>
  The normalized type of a node: its type string, in lower case, if that already
  contains a slash, otherwise the concatenation type, slash, subtype, in lower case. A
  missing type or subtype counts as the empty text, and a node without a subtype has its
  type alone as normalized type.
\<close>

definition lower_text :: "node_lib \<Rightarrow> jsstring option \<Rightarrow> jsstring" where
  "lower_text L v =
     (case v of
        None \<Rightarrow> []
      | Some s \<Rightarrow> toLowerCase L s)"

definition normalized_type :: "node_lib \<Rightarrow> BodyStructure \<Rightarrow> jsstring" where
  "normalized_type L n =
     (if 0x2F \<in> set (lower_text L (node_type n)) \<or> lower_text L (subtype n) = []
      then lower_text L (node_type n)
      else lower_text L (node_type n) @ [0x2F] @ lower_text L (subtype n))"

text \<open>
  The depth-first order: a node, then, only if its normalized type begins with
  \<^verbatim>\<open>multipart/\<close>, its children from left to right, each followed by its own subtree.
\<close>

definition is_multipart :: "node_lib \<Rightarrow> BodyStructure \<Rightarrow> bool" where
  "is_multipart L n = (take 10 (normalized_type L n) = js ''multipart/'')"

fun visit :: "node_lib \<Rightarrow> BodyStructure \<Rightarrow> BodyStructure list"
  and visit_children :: "node_lib \<Rightarrow> BodyStructure list \<Rightarrow> BodyStructure list" where
  "visit L (BodyStructure ty sub prt disp fname pname sz cid kids) =
     BodyStructure ty sub prt disp fname pname sz cid kids #
     (if is_multipart L (BodyStructure ty sub prt disp fname pname sz cid kids)
      then (case kids of None \<Rightarrow> [] | Some children \<Rightarrow> visit_children L children)
      else [])"
| "visit_children L [] = []"
| "visit_children L (childNode # rest) = visit L childNode @ visit_children L rest"

text \<open>
  \<open>spec_findPart\<close>: the first node in depth-first order whose normalized type equals the
  target in lower case; the result is its part path, or the default path \<^verbatim>\<open>1\<close> when it
  carries none (a missing or empty one), and nothing when no node matches.
\<close>

definition path_or_default :: "BodyStructure \<Rightarrow> jsstring" where
  "path_or_default n =
     (case part n of
        None \<Rightarrow> js ''1''
      | Some p \<Rightarrow> if p = [] then js ''1'' else p)"

definition spec_findPart :: "node_lib \<Rightarrow> BodyStructure \<Rightarrow> jsstring \<Rightarrow> jsstring option" where
  "spec_findPart L root mimeType =
     map_option path_or_default
       (find (\<lambda>n. normalized_type L n = toLowerCase L mimeType) (visit L root))"

text \<open>
  \<open>spec_findAttachments\<close>: every node in depth-first order that is classified as an
  attachment appends its entry to the accumulator. A node is classified when its
  disposition, in lower case, is \<^verbatim>\<open>attachment\<close> or \<^verbatim>\<open>inline\<close>, or it carries a file name
  (a non-empty \<^verbatim>\<open>dispositionParameters.filename\<close> or \<^verbatim>\<open>parameters.name\<close>), and its
  normalized type is neither \<^verbatim>\<open>text/plain\<close> nor \<^verbatim>\<open>text/html\<close>. In the entry of a node
  appended at position \<open>k\<close> (counted from 0) the id is the part path, or the number
  \<open>k + 1\<close> when the node carries none; the file name is the disposition's file name, else
  the name parameter, else \<^verbatim>\<open>attachment-\<close> followed by \<open>k + 1\<close>; the content type is the
  normalized type; the size is the node's, or 0; the inline flag tells whether the
  disposition is \<^verbatim>\<open>inline\<close>; the content id is the node's.
\<close>

definition carried :: "jsstring option \<Rightarrow> jsstring option" where
  "carried v =
     (case v of
        None \<Rightarrow> None
      | Some s \<Rightarrow> if s = [] then None else Some s)"

definition classified :: "node_lib \<Rightarrow> BodyStructure \<Rightarrow> bool" where
  "classified L n =
     ((lower_text L (disposition n) = js ''attachment'' \<or>
       lower_text L (disposition n) = js ''inline'' \<or>
       carried (disposition_filename n) \<noteq> None \<or>
       carried (parameters_name n) \<noteq> None) \<and>
      normalized_type L n \<notin> {js ''text/plain'', js ''text/html''})"

definition spec_entry :: "node_lib \<Rightarrow> BodyStructure \<Rightarrow> nat \<Rightarrow> EmailAttachment" where
  "spec_entry L n k =
     \<lparr>att_id =
        (case carried (part n) of
           Some p \<Rightarrow> p
         | None \<Rightarrow> num_toString L (Num (int k + 1))),
      filename =
        (case carried (disposition_filename n) of
           Some f \<Rightarrow> f
         | None \<Rightarrow>
             (case carried (parameters_name n) of
                Some f \<Rightarrow> f
              | None \<Rightarrow> js ''attachment-'' @ num_toString L (Num (int k + 1)))),
      contentType = normalized_type L n,
      att_size =
        (case node_size n of
           None \<Rightarrow> 0
         | Some s \<Rightarrow> s),
      inline = (lower_text L (disposition n) = js ''inline''),
      contentId = node_id n\<rparr>"

definition append_entry ::
  "node_lib \<Rightarrow> BodyStructure \<Rightarrow> EmailAttachment list \<Rightarrow> EmailAttachment list" where
  "append_entry L n acc = (if classified L n then acc @ [spec_entry L n (length acc)] else acc)"

definition spec_findAttachments ::
  "node_lib \<Rightarrow> BodyStructure \<Rightarrow> EmailAttachment list \<Rightarrow> EmailAttachment list" where
  "spec_findAttachments L root acc = fold (append_entry L) (visit L root) acc"

section \<open>Message content and error classification\<close>

definition msg_not_found :: "jsstring \<Rightarrow> jsstring" where
  "msg_not_found emailId = ([0x90AE, 0x4EF6, 0x4E0D, 0x5B58, 0x5728] @ js '': '') @ emailId"

definition falsy_text :: "jsstring option \<Rightarrow> bool" where
  "falsy_text v = (\<not> truthy v)"

text \<open>
  One body download of \<open>fetchMessageContent\<close>: nothing is downloaded without a part
  path, and an error of the download is logged and leaves the content undefined.
\<close>

definition download_part :: "imap_client \<Rightarrow> jsnum \<Rightarrow> jsstring option \<Rightarrow> jsstring option" where
  "download_part client uid' partPath =
     (if truthy partPath then
        (case download client uid' (str_or partPath []) of
           Inl e \<Rightarrow> None
         | Inr content \<Rightarrow> content)
      else None)"

text \<open>
  \<open>fetchMessageContent\<close>. \<open>clock\<close> is the reading of \<^verbatim>\<open>new Date()\<close> used when the
  message has no internal date. The regular-expression search of \<^verbatim>\<open>parseEmailSource\<close>
  is the parameter \<open>parseEmailSource\<close>, which gives the text and HTML it extracts from
  the raw source or the error it throws.
\<close>

definition fetchMessageContent ::
  "node_lib \<Rightarrow> imap_client \<Rightarrow> int
     \<Rightarrow> (jsstring \<Rightarrow> js_error + jsstring option \<times> jsstring option) \<Rightarrow> jsstring
     \<Rightarrow> js_error + EmailMessage" where
  "fetchMessageContent L client clock parseEmailSource emailId =
     (let uid' = parseInt L emailId
      in case fetchOne client uid' of
           Inl e \<Rightarrow> Inl e
         | Inr None \<Rightarrow> Inl (Error (msg_not_found emailId))
         | Inr (Some message') \<Rightarrow>
             (let textPart = findBodyPart L (bodyStructure message') (js ''text/plain'');
                  htmlPart = findBodyPart L (bodyStructure message') (js ''text/html'');
                  text1 = download_part client uid' textPart;
                  html1 = download_part client uid' htmlPart;
                  bodies =
                    (if falsy_text text1 \<and> falsy_text html1 \<and> source message' \<noteq> None then
                       (case parseEmailSource (case source message' of None \<Rightarrow> [] | Some s \<Rightarrow> s) of
                          Inl e \<Rightarrow> (text1, html1)
                        | Inr parsed \<Rightarrow> parsed)
                     else (text1, html1));
                  found = findAttachments L (bodyStructure message') [];
                  summary = summarise L
                              (case internalDate message' of None \<Rightarrow> clock | Some d \<Rightarrow> d)
                              message'
              in Inr (summary
                       \<lparr>msg_id := num_toString L uid',
                        textContent := fst bodies,
                        htmlContent := snd bodies,
                        attachments := (if found \<noteq> [] then Some found else None)\<rparr>)))"

text \<open>
  The error types of \<^verbatim>\<open>ChannelErrorType\<close> that the providers use, and the error object
  \<open>handleError\<close> builds: the replaced message, the type, the retry flag and the details
  (reason and operation) when a branch sets them.
\<close>

datatype ChannelErrorType =
  NETWORK_ERROR | AUTHENTICATION_ERROR | API_ERROR | CONFIGURATION_ERROR | UNKNOWN_ERROR

record ChannelError =
  err_message :: jsstring
  err_type :: ChannelErrorType
  retryable :: bool
  err_details :: "(jsstring \<times> jsstring) option"

datatype 'a ChannelResponse = Success 'a | Failure ChannelError

definition handleError :: "js_error \<Rightarrow> jsstring \<Rightarrow> ChannelError" where
  "handleError error operation =
     (let errorMessage = message error
      in if includes_str errorMessage (js ''ECONNREFUSED'') \<or> includes_str errorMessage (js ''ETIMEDOUT'') then
           \<lparr>err_message = (js ''IMAP '' @ [0x8FDE, 0x63A5, 0x5931, 0x8D25, 0xFF1A, 0x65E0, 0x6CD5, 0x8FDE, 0x63A5, 0x5230, 0x670D, 0x52A1, 0x5668]),
            err_type = NETWORK_ERROR, retryable = True,
            err_details = Some (([0x7F51, 0x7EDC, 0x8FDE, 0x63A5, 0x5931, 0x8D25, 0x6216, 0x670D, 0x52A1, 0x5668, 0x5730, 0x5740, 0x9519, 0x8BEF]), operation)\<rparr>
         else if includes_str errorMessage (js ''AUTHENTICATIONFAILED'') \<or>
                 includes_str errorMessage (js ''Invalid credentials'') then
           \<lparr>err_message = (js ''IMAP '' @ [0x8BA4, 0x8BC1, 0x5931, 0x8D25, 0xFF1A, 0x7528, 0x6237, 0x540D, 0x6216, 0x5BC6, 0x7801, 0x9519, 0x8BEF]),
            err_type = AUTHENTICATION_ERROR, retryable = False,
            err_details = Some (([0x8BA4, 0x8BC1, 0x4FE1, 0x606F, 0x65E0, 0x6548]), operation)\<rparr>
         else if includes_str errorMessage (js ''Mailbox does not exist'') then
           \<lparr>err_message = (js ''IMAP '' @ [0x64CD, 0x4F5C, 0x5931, 0x8D25, 0xFF1A, 0x90AE, 0x7BB1, 0x76EE, 0x5F55, 0x4E0D, 0x5B58, 0x5728]),
            err_type = API_ERROR, retryable = False,
            err_details = Some (([0x6307, 0x5B9A, 0x7684, 0x90AE, 0x7BB1, 0x76EE, 0x5F55, 0x4E0D, 0x5B58, 0x5728]), operation)\<rparr>
         else
           \<lparr>err_message = errorMessage, err_type = UNKNOWN_ERROR, retryable = False,
            err_details = None\<rparr>)"

definition msg_token_required :: jsstring where
  "msg_token_required = (js ''accessToken '' @ [0x4E3A, 0x5FC5, 0x586B, 0x5B57, 0x6BB5])"

text \<open>
  The two public operations. \<open>connect\<close> stands for \<open>getConnection\<close>: the pooled or new
  client for a configuration, or the error of the connection attempt; the bookkeeping
  of the pool and of the request statistics does not reach the response and is left
  out. \<open>now_token\<close> is the clock reading of the token check and \<open>now\<close> the one of the
  operation itself.
\<close>

definition getEmails ::
  "node_lib \<Rightarrow> process_env \<Rightarrow> (ImapConfig \<Rightarrow> js_error + imap_client) \<Rightarrow> int \<Rightarrow> int
     \<Rightarrow> jsstring option \<Rightarrow> EmailMessage list ChannelResponse" where
  "getEmails L env connect now_token now accessToken =
     (let outcome =
        (if \<not> truthy accessToken then Inl (Error msg_token_required)
         else
           (case parseAccessToken L env now_token (str_or accessToken []) of
              Inl e \<Rightarrow> Inl e
            | Inr session \<Rightarrow>
                (case connect (imapConfig session) of
                   Inl e \<Rightarrow> Inl e
                 | Inr client \<Rightarrow>
                     (case mailboxOpen client (str_or (imap_dir (imapConfig session)) (js ''INBOX'')) of
                        Inl e \<Rightarrow> Inl e
                      | Inr u \<Rightarrow> fetchRecentMessages L client now (tempEmailAddress session)))))
      in case outcome of
           Inl e \<Rightarrow> Failure (handleError e (js ''getEmails''))
         | Inr messages \<Rightarrow> Success messages)"

definition getEmailContent ::
  "node_lib \<Rightarrow> process_env \<Rightarrow> (ImapConfig \<Rightarrow> js_error + imap_client) \<Rightarrow> int \<Rightarrow> int
     \<Rightarrow> (jsstring \<Rightarrow> js_error + jsstring option \<times> jsstring option)
     \<Rightarrow> jsstring \<Rightarrow> jsstring \<Rightarrow> jsstring option \<Rightarrow> EmailMessage ChannelResponse" where
  "getEmailContent L env connect now_token clock parseEmailSource emailAddress emailId accessToken =
     (let outcome =
        (if \<not> truthy accessToken then Inl (Error msg_token_required)
         else
           (case parseAccessToken L env now_token (str_or accessToken []) of
              Inl e \<Rightarrow> Inl e
            | Inr session \<Rightarrow>
                (case connect (imapConfig session) of
                   Inl e \<Rightarrow> Inl e
                 | Inr client \<Rightarrow>
                     (case mailboxOpen client (str_or (imap_dir (imapConfig session)) (js ''INBOX'')) of
                        Inl e \<Rightarrow> Inl e
                      | Inr u \<Rightarrow> fetchMessageContent L client clock parseEmailSource emailId))))
      in case outcome of
           Inl e \<Rightarrow> Failure (handleError e (js ''getEmailContent''))
         | Inr message' \<Rightarrow> Success message')"

section \<open>A small runtime and a sample session\<close>

text \<open>
  To run the provider on concrete inputs the library parameter is instantiated by a
  small stand-in that agrees with the runtime on the ASCII texts of the examples:
  lower-casing of the letters A to Z, \<^verbatim>\<open>parseInt\<close> of a text that begins with decimal
  digits or with no digit at all, the decimal text of a number, a JSON printer for
  sessions with a reader that recognises the sample session's text, and a
  byte-for-character UTF-8 codec. The cipher is a toy sealed box whose tag is a checksum
  of key, IV and ciphertext; its decipher opens the box of the sample session and
  refuses every other input, as an authenticated cipher does.
\<close>

definition demo_toLowerCase :: "jsstring \<Rightarrow> jsstring" where
  "demo_toLowerCase s = map (\<lambda>u. if 0x41 \<le> u \<and> u \<le> 0x5A then u + 0x20 else u) s"

definition is_digit :: "16 word \<Rightarrow> bool" where
  "is_digit u = (0x30 \<le> u \<and> u \<le> 0x39)"

definition demo_parseInt :: "jsstring \<Rightarrow> jsnum" where
  "demo_parseInt s =
     (case takeWhile is_digit s of
        [] \<Rightarrow> NaN
      | d # ds \<Rightarrow> Num (fold (\<lambda>u acc. acc * 10 + (uint u - 48)) (d # ds) 0))"

function digits_of :: "int \<Rightarrow> jsstring" where
  "digits_of n =
     (if n < 10 then [of_int (48 + n)]
      else digits_of (n div 10) @ [of_int (48 + n mod 10)])"
  by pat_completeness auto
termination
  by (relation "measure nat") auto

definition demo_num_toString :: "jsnum \<Rightarrow> jsstring" where
  "demo_num_toString v =
     (case v of
        Num i \<Rightarrow> (if i < 0 then js ''-'' @ digits_of (- i) else digits_of i)
      | PosInf \<Rightarrow> js ''Infinity''
      | NegInf \<Rightarrow> js ''-Infinity''
      | NaN \<Rightarrow> js ''NaN'')"

definition json_quote :: "jsstring \<Rightarrow> jsstring" where
  "json_quote s =
     [0x22] @ concat (map (\<lambda>c. if c = 0x22 \<or> c = 0x5C then [0x5C, c] else [c]) s) @ [0x22]"

definition json_config :: "ImapConfig \<Rightarrow> jsstring" where
  "json_config c =
     js ''{'' @ json_quote (js ''domain'') @ js '':'' @ json_quote (domain c) @
     js '','' @ json_quote (js ''imap_server'') @ js '':'' @ json_quote (imap_server c) @
     (case imap_port c of
        None \<Rightarrow> []
      | Some p \<Rightarrow> js '','' @ json_quote (js ''imap_port'') @ js '':'' @ demo_num_toString (Num p)) @
     js '','' @ json_quote (js ''imap_user'') @ js '':'' @ json_quote (imap_user c) @
     js '','' @ json_quote (js ''imap_pass'') @ js '':'' @ json_quote (imap_pass c) @
     (case imap_dir c of
        None \<Rightarrow> []
      | Some d \<Rightarrow> js '','' @ json_quote (js ''imap_dir'') @ js '':'' @ json_quote d) @
     js ''}''"

definition json_session :: "ImapSession \<Rightarrow> jsstring" where
  "json_session S =
     js ''{'' @ json_quote (js ''tempEmailAddress'') @ js '':'' @ json_quote (tempEmailAddress S) @
     js '','' @ json_quote (js ''imapConfig'') @ js '':'' @ json_config (imapConfig S) @
     (case timestamp S of
        None \<Rightarrow> []
      | Some t \<Rightarrow> js '','' @ json_quote (js ''timestamp'') @ js '':'' @ demo_num_toString (Num t)) @
     js ''}''"

definition demo_config :: ImapConfig where
  "demo_config =
     \<lparr>domain = js ''x.com'', imap_server = js ''imap.x.com'', imap_port = Some 993,
      imap_user = js ''u@x.com'', imap_pass = js ''pw'', imap_dir = None\<rparr>"

definition demo_session :: ImapSession where
  "demo_session =
     \<lparr>tempEmailAddress = js ''a@x.com'', imapConfig = demo_config, timestamp = Some 1700000000000\<rparr>"

definition demo_parse :: "jsstring \<Rightarrow> js_error + ImapSession" where
  "demo_parse text =
     (if text = json_session demo_session then Inr demo_session
      else Inl (Error (js ''Unexpected token'')))"

definition demo_utf8_encode :: "jsstring \<Rightarrow> byte list" where
  "demo_utf8_encode s = map (\<lambda>u. of_int (uint u)) s"

definition demo_utf8_decode :: "byte list \<Rightarrow> jsstring" where
  "demo_utf8_decode bs = map (\<lambda>b. of_int (uint b)) bs"

definition demo_tag :: "byte list \<Rightarrow> byte list \<Rightarrow> byte list \<Rightarrow> byte list" where
  "demo_tag key iv ct =
     (let s = fold (+) (key @ iv @ ct) 0
      in [s, s, s, s, s, s, s, s, s, s, s, s, s, s, s, s])"

definition demo_iv :: "byte list" where
  "demo_iv = [1, 2, 3, 4, 5, 6, 7, 8, 9, 10, 11, 12, 13, 14, 15, 16]"

definition demo_box :: "byte list" where
  "demo_box = rev (demo_utf8_encode (json_session demo_session))"

definition demo_unseal :: "byte list \<Rightarrow> byte list \<Rightarrow> byte list \<Rightarrow> byte list \<Rightarrow> js_error + byte list" where
  "demo_unseal key iv tag ct =
     (if iv = demo_iv \<and> ct = demo_box \<and> tag = demo_tag key iv ct then Inr (rev ct)
      else Inl (Error (js ''Unsupported state or unable to authenticate data'')))"

definition demo_lib :: node_lib where
  "demo_lib =
     \<lparr>JSON_stringify = json_session,
      JSON_parse = demo_parse,
      utf8_encode = demo_utf8_encode,
      utf8_decode = demo_utf8_decode,
      sha256 = (\<lambda>bs. take 32 (bs @ replicate 32 0)),
      gcm_encrypt = (\<lambda>key iv plain. (rev plain, demo_tag key iv (rev plain))),
      gcm_decrypt = demo_unseal,
      toLowerCase = demo_toLowerCase,
      parseInt = demo_parseInt,
      num_toString = demo_num_toString\<rparr>"

text \<open>
  Environments: plaintext tokens without expiry, plaintext tokens with a time-to-live of
  one hour, and encrypted tokens under the secret \<open>k\<close>.
\<close>

definition plain_env :: process_env where
  "plain_env =
     \<lparr>IMAP_ENCRYPT_TOKEN = None, IMAP_ENCRYPTION_KEY = None, IMAP_TOKEN_TTL_HOURS = None\<rparr>"







text \<open>
  A sample mailbox, queried for \<open>a@x.com\<close> at the time \<open>demo_now\<close>: message 1 is sent
  to the address, message 2 to \<open>sub.a@x.com\<close>, message 3 has the address in another
  case among its Cc, message 4 is sent to the address but is older than a day, and
  message 5 is sent to the address and has neither an internal date nor a sender.
\<close>

definition demo_now :: int where
  "demo_now = 1700000000000"

definition addr :: "jsstring \<Rightarrow> Address" where
  "addr a = \<lparr>name = None, address = Some a\<rparr>"

definition demo_message :: "nat \<Rightarrow> jsstring option \<Rightarrow> jsstring \<Rightarrow> jsstring list \<Rightarrow> int option \<Rightarrow> FetchedMessage" where
  "demo_message n sender recipient copies date =
     \<lparr>uid = n,
      envelope =
        \<lparr>env_from = map_option (\<lambda>s. [addr s]) sender,
         env_to = Some [addr recipient],
         env_cc = (if copies = [] then None else Some (map addr copies)),
         env_bcc = None,
         env_subject = Some (js ''hello''),
         env_messageId = None\<rparr>,
      internalDate = date,
      flags = None,
      fetched_size = Some 100,
      bodyStructure = None,
      source = None\<rparr>"

definition demo_m1 :: FetchedMessage where
  "demo_m1 = demo_message 1 (Some (js ''s@y.org'')) (js ''a@x.com'') [] (Some (demo_now - 1000))"

definition demo_m2 :: FetchedMessage where
  "demo_m2 = demo_message 2 (Some (js ''s@y.org'')) (js ''sub.a@x.com'') [] (Some (demo_now - 2000))"

definition demo_m3 :: FetchedMessage where
  "demo_m3 = demo_message 3 (Some (js ''s@y.org'')) (js ''b@x.com'') [js ''A@X.com''] (Some (demo_now - 500))"

definition demo_m4 :: FetchedMessage where
  "demo_m4 = demo_message 4 (Some (js ''s@y.org'')) (js ''a@x.com'') [] (Some (demo_now - 90000000))"

definition demo_m5 :: FetchedMessage where
  "demo_m5 = demo_message 5 None (js ''a@x.com'') [] None"

definition demo_fetched :: "(int \<times> FetchedMessage) list" where
  "demo_fetched =
     [(demo_now + 1, demo_m1), (demo_now + 2, demo_m2), (demo_now + 3, demo_m3),
      (demo_now + 4, demo_m4), (demo_now + 5, demo_m5)]"

definition demo_client :: imap_client where
  "demo_client =
     \<lparr>mailboxOpen = (\<lambda>folder. Inr ()),
      search_since = (\<lambda>since. Inr (Some [1, 2, 3, 4, 5])),
      fetch = (\<lambda>uids. Inr demo_fetched),
      fetchOne = (\<lambda>u. if u = Num 1 then Inr (Some demo_m1)
                        else if u = Num 5 then Inr (Some demo_m5) else Inr None),
      download = (\<lambda>u p. Inr None)\<rparr>"

definition demo_listing :: "EmailMessage list" where
  "demo_listing =
     [summarise demo_lib (demo_now + 5) demo_m5, summarise demo_lib (demo_now - 500) demo_m3,
      summarise demo_lib (demo_now - 1000) demo_m1]"

text \<open>A second mailbox holds only messages 2 and 4 and one sent to another address.\<close>

definition other_fetched :: "(int \<times> FetchedMessage) list" where
  "other_fetched =
     [(demo_now + 1, demo_m2),
      (demo_now + 2, demo_message 6 (Some (js ''s@y.org'')) (js ''b@x.com'') [] (Some (demo_now - 10)))]"

definition other_client :: imap_client where
  "other_client = demo_client\<lparr>search_since := (\<lambda>since. Inr (Some [2, 6])),
                              fetch := (\<lambda>uids. Inr other_fetched)\<rparr>"

definition demo_connect :: "ImapConfig \<Rightarrow> js_error + imap_client" where
  "demo_connect config = Inr demo_client"

definition no_source_parser :: "jsstring \<Rightarrow> js_error + jsstring option \<times> jsstring option" where
  "no_source_parser raw = Inr (None, None)"


text \<open>
  A sample structure: \<^verbatim>\<open>multipart/mixed\<close> holding a \<^verbatim>\<open>multipart/alternative\<close> (a plain
  and an HTML body, parts 1.1 and 1.2) and a PDF attachment (part 2).
\<close>

definition leaf :: "jsstring \<Rightarrow> jsstring \<Rightarrow> jsstring \<Rightarrow> BodyStructure" where
  "leaf ty sub path =
     BodyStructure (Some ty) (Some sub) (Some path) None None None None None None"

definition demo_pdf :: BodyStructure where
  "demo_pdf =
     BodyStructure (Some (js ''application/pdf'')) None (Some (js ''2'')) (Some (js ''attachment''))
       (Some (js ''doc.pdf'')) None (Some 1234) None None"

definition demo_structure :: BodyStructure where
  "demo_structure =
     BodyStructure (Some (js ''multipart'')) (Some (js ''MIXED'')) None None None None None None
       (Some [BodyStructure (Some (js ''multipart/alternative'')) None (Some (js ''1'')) None None None None None
                (Some [leaf (js ''TEXT'') (js ''PLAIN'') (js ''1.1''), leaf (js ''text'') (js ''html'') (js ''1.2'')]),
              demo_pdf])"


text \<open>
  A second structure, for the attachments: a \<^verbatim>\<open>multipart/related\<close> node that is itself
  marked inline and holds an image named by its \<^verbatim>\<open>name\<close> parameter, a plain text sent
  as an attachment, a node marked \<^verbatim>\<open>INLINE\<close> that has neither part path nor file name
  nor size, and the PDF.
\<close>

definition demo_image :: BodyStructure where
  "demo_image =
     BodyStructure (Some (js ''IMAGE'')) (Some (js ''png'')) (Some (js ''1.1'')) None
       None (Some (js ''logo.png'')) (Some 10) (Some (js ''<cid1>'')) None"

definition demo_note :: BodyStructure where
  "demo_note =
     BodyStructure (Some (js ''text'')) (Some (js ''plain'')) (Some (js ''2'')) (Some (js ''attachment''))
       (Some (js ''note.txt'')) None (Some 5) None None"

definition demo_bare :: BodyStructure where
  "demo_bare =
     BodyStructure (Some (js ''application'')) (Some (js ''octet-stream'')) None (Some (js ''INLINE''))
       None None None None None"

definition demo_attachments :: BodyStructure where
  "demo_attachments =
     BodyStructure (Some (js ''multipart/mixed'')) (Some (js ''ignored'')) None None None None None None
       (Some [BodyStructure (Some (js ''multipart'')) (Some (js ''related'')) (Some (js ''1''))
                (Some (js ''inline'')) None None None None (Some [demo_image]),
              demo_note, demo_bare, demo_pdf])"

text \<open>
  A third structure, with nodes that have no subtype (and an empty part path), no type,
  and children below a node that is not a \<^verbatim>\<open>multipart/\<close> node.
\<close>

definition demo_odd :: BodyStructure where
  "demo_odd =
     BodyStructure (Some (js ''Multipart/X'')) (Some (js ''y'')) None None None None None None
       (Some [BodyStructure (Some (js ''Text'')) None (Some []) None None None None None None,
              BodyStructure None (Some (js ''Plain'')) (Some (js ''7'')) None None None None None None,
              BodyStructure (Some (js ''text'')) (Some (js ''html'')) None None None None None None
                (Some [leaf (js ''text'') (js ''calendar'') (js ''9'')]),
              leaf (js ''text'') (js ''calendar'') (js ''4'')])"

section \<open>Properties of the buffer codecs\<close>

lemma div_pack: "z < n \<Longrightarrow> (k * n + z) div n = (k::nat)"
  by simp

lemma mod_pack: "z < n \<Longrightarrow> (k * n + z) mod n = (z::nat)"
  by simp

lemma group_byte1:
  assumes "y < 256"
  shows "(x div 4) * 4 + ((x mod 4) * 16 + y div 16) div 16 = (x::nat)"
proof -
  have "y div 16 < 16" using assms by simp
  then have "((x mod 4) * 16 + y div 16) div 16 = x mod 4" by (rule div_pack)
  then show ?thesis by simp
qed

lemma group_byte2:
  assumes "y < 256" "z < 256"
  shows "(((x mod 4) * 16 + y div 16) mod 16) * 16 + ((y mod 16) * 4 + z div 64) div 4 = (y::nat)"
proof -
  have a: "y div 16 < 16" using assms by simp
  have b: "z div 64 < 4" using assms by simp
  have "((x mod 4) * 16 + y div 16) mod 16 = y div 16" using a by (rule mod_pack)
  moreover have "((y mod 16) * 4 + z div 64) div 4 = y mod 16" using b by (rule div_pack)
  ultimately show ?thesis by simp
qed

lemma group_byte3:
  assumes "z < 256"
  shows "(((y mod 16) * 4 + z div 64) mod 4) * 64 + z mod 64 = (z::nat)"
proof -
  have "z div 64 < 4" using assms by simp
  then have "((y mod 16) * 4 + z div 64) mod 4 = z div 64" by (rule mod_pack)
  then show ?thesis by simp
qed

lemma group_byte2_last:
  assumes "y < 256"
  shows "(((x mod 4) * 16 + y div 16) mod 16) * 16 + ((y mod 16) * 4) div 4 = (y::nat)"
proof -
  have "y div 16 < 16" using assms by simp
  then have "((x mod 4) * 16 + y div 16) mod 16 = y div 16" by (rule mod_pack)
  then show ?thesis by simp
qed

lemma group_byte1_last: "(x div 4) * 4 + ((x mod 4) * 16) div 16 = (x::nat)"
  by simp

lemma byte_less: "unat (a::byte) < 256"
  using unsigned_less [of a] by simp

lemma sextet_bounds:
  "unat (a::byte) div 4 < 64"
  "(unat a mod 4) * 16 + unat (b::byte) div 16 < 64"
  "(unat b mod 16) * 4 + unat (c::byte) div 64 < 64"
  "unat c mod 64 < 64"
  "(unat b mod 16) * 4 < 64"
  "(unat a mod 4) * 16 < 64"
proof -
  have A: "unat a < 256" "unat b < 256" "unat c < 256"
    by (rule byte_less)+
  have B: "unat a mod 4 < 4" "unat b div 16 < 16" "unat b mod 16 < 16" "unat c div 64 < 4"
    using A by simp_all
  show "unat a div 4 < 64" using A by simp
  show "(unat a mod 4) * 16 + unat b div 16 < 64" using B by simp
  show "(unat b mod 16) * 4 + unat c div 64 < 64" using B by simp
  show "unat c mod 64 < 64" by simp
  show "(unat b mod 16) * 4 < 64" using B by simp
  show "(unat a mod 4) * 16 < 64" using B by simp
qed

lemma alphabet_table:
  "\<forall>i \<in> set [0..<64].
     unbase64 (low_byte (b64char i)) = Some i \<and> low_byte (b64char i) \<noteq> CHR ''=''"
  by code_simp

lemma unbase64_b64char: "i < 64 \<Longrightarrow> unbase64 (low_byte (b64char i)) = Some i"
  using alphabet_table by simp

lemma b64char_not_pad: "i < 64 \<Longrightarrow> low_byte (b64char i) \<noteq> CHR ''=''"
  using alphabet_table by simp

lemma low_byte_pad: "low_byte pad = CHR ''=''"
  by code_simp

lemma sextets_cons: "i < 64 \<Longrightarrow> base64_sextets (b64char i # s) = i # base64_sextets s"
  by (simp add: base64_sextets_def unbase64_b64char b64char_not_pad map_filter_simps)

lemma sextets_pad: "base64_sextets (pad # s) = []"
  by (simp add: base64_sextets_def low_byte_pad map_filter_simps)

lemma sextets_nil: "base64_sextets [] = []"
  by (simp add: base64_sextets_def map_filter_simps)

lemma base64_roundtrip: "base64_decode (base64_encode bs) = bs"
proof (induction bs rule: base64_encode.induct)
  case (1 a b c rest)
  have A: "unat a < 256" "unat b < 256" "unat c < 256"
    by (rule byte_less)+
  have "base64_sextets (base64_encode (a # b # c # rest)) =
        unat a div 4 # ((unat a mod 4) * 16 + unat b div 16) #
        ((unat b mod 16) * 4 + unat c div 64) # unat c mod 64 #
        base64_sextets (base64_encode rest)"
    by (simp only: base64_encode.simps append.simps sextets_cons sextet_bounds)
  then have "base64_decode (base64_encode (a # b # c # rest)) =
        [of_nat (unat a), of_nat (unat b), of_nat (unat c)] @ base64_decode (base64_encode rest)"
    by (simp only: base64_decode_def base64_decode_groups.simps
          group_byte1 [OF A(2)] group_byte2 [OF A(2) A(3)] group_byte3 [OF A(3)])
  then show ?case using 1 by simp
next
  case (2 a b)
  have A: "unat a < 256" "unat b < 256"
    by (rule byte_less)+
  have "base64_sextets (base64_encode [a, b]) =
        [unat a div 4, (unat a mod 4) * 16 + unat b div 16, (unat b mod 16) * 4]"
    by (simp only: base64_encode.simps append.simps sextets_cons sextets_pad sextet_bounds)
  then have "base64_decode (base64_encode [a, b]) = [of_nat (unat a), of_nat (unat b)]"
    by (simp only: base64_decode_def base64_decode_groups.simps
          group_byte1 [OF A(2)] group_byte2_last [OF A(2)])
  then show ?case by simp
next
  case (3 a)
  have "base64_sextets (base64_encode [a]) = [unat a div 4, (unat a mod 4) * 16]"
    by (simp only: base64_encode.simps append.simps sextets_cons sextets_pad sextet_bounds)
  then have "base64_decode (base64_encode [a]) = [of_nat (unat a)]"
    by (simp only: base64_decode_def base64_decode_groups.simps group_byte1_last)
  then show ?case by simp
next
  case 4
  show ?case by (simp add: base64_decode_def sextets_nil)
qed

lemma hex_table: "\<forall>i \<in> set [0..<16]. unhex (low_byte (hexchar i)) = Some i"
  by code_simp

lemma unhex_hexchar: "i < 16 \<Longrightarrow> unhex (low_byte (hexchar i)) = Some i"
  using hex_table by simp

lemma hex_roundtrip: "hex_decode (hex_encode bs) = bs"
proof (induction bs)
  case Nil
  show ?case by simp
next
  case (Cons b bs)
  have hi: "unat b div 16 < 16" using byte_less [of b] by simp
  have lo: "unat b mod 16 < 16" by simp
  have "hex_decode (hex_encode (b # bs)) =
        of_nat (unat b div 16 * 16 + unat b mod 16) # hex_decode (hex_encode bs)"
    by (simp only: hex_encode.simps hex_decode.simps unhex_hexchar [OF hi]
          unhex_hexchar [OF lo] option.case)
  also have "unat b div 16 * 16 + unat b mod 16 = unat b" by simp
  finally show ?case using Cons by simp
qed

section \<open>Round trip of the token codec\<close>

lemma decode_encode:
  "json_faithful L S \<Longrightarrow> decodeImapSession L (encodeImapSession L S) = Inr S"
  by (simp add: decodeImapSession_def encodeImapSession_def base64_roundtrip json_faithful_def)

lemma decrypt_encrypt:
  assumes faithful: "json_faithful L S"
    and iv: "length iv = 16"
    and cipher: "cipher_inverts L k iv S"
  shows "decryptImapSession L (encryptImapSession L iv S k) k = Inr S"
proof -
  define key where "key = sha256 L (utf8_encode L k)"
  define plain where "plain = utf8_encode L (JSON_stringify L S)"
  define ct where "ct = fst (gcm_encrypt L key iv plain)"
  define tag where "tag = snd (gcm_encrypt L key iv plain)"
  have tag16: "length tag = 16" and opens: "gcm_decrypt L key iv tag ct = Inr plain"
    using cipher by (simp_all add: cipher_inverts_def Let_def key_def plain_def ct_def tag_def)
  have token: "encryptImapSession L iv S k = base64_encode (iv @ tag @ ct)"
    by (simp add: encryptImapSession_def Let_def key_def plain_def ct_def tag_def hex_roundtrip)
  have parts: "take 16 (iv @ tag @ ct) = iv" "take 16 (drop 16 (iv @ tag @ ct)) = tag"
    "drop 32 (iv @ tag @ ct) = ct"
    using iv tag16 by simp_all
  have "decryptImapSession L (base64_encode (iv @ tag @ ct)) k = JSON_parse L (utf8_decode L plain)"
    unfolding decryptImapSession_def Let_def base64_roundtrip parts hex_roundtrip
    using opens by (simp add: key_def)
  then show ?thesis
    using faithful by (simp add: token json_faithful_def plain_def)
qed

lemma demo_utf8_roundtrip:
  "demo_utf8_decode (demo_utf8_encode (json_session demo_session)) = json_session demo_session"
  by code_simp

lemma demo_json_faithful: "json_faithful demo_lib demo_session"
  by (simp add: json_faithful_def demo_lib_def demo_utf8_roundtrip demo_parse_def)

lemma demo_cipher_inverts: "cipher_inverts demo_lib k demo_iv demo_session"
  by (simp add: cipher_inverts_def demo_lib_def demo_unseal_def demo_tag_def demo_box_def Let_def)

text \<open>
  C1. Decoding the token obtained by encoding a session gives the session back, in both
  modes: \<open>decodeImapSession (encodeImapSession S) = S\<close> in plaintext mode and
  \<open>decryptImapSession (encryptImapSession S k) k = S\<close> in encrypted mode with the same
  secret. A valid session is one the runtime's JSON codec reproduces; the IV has the 16
  bytes \<^verbatim>\<open>randomBytes(16)\<close> returns and the decipher inverts the cipher on it.
\<close>

theorem session_roundtrip:
  assumes "json_faithful L S"
    and "length iv = 16"
    and "cipher_inverts L k iv S"
  shows "decodeImapSession L (encodeImapSession L S) = Inr S \<and>
         decryptImapSession L (encryptImapSession L iv S k) k = Inr S"
  using assms by (simp add: decode_encode decrypt_encrypt)

theorem session_roundtrip_witness:
  "json_faithful demo_lib demo_session \<and> length demo_iv = 16 \<and>
   cipher_inverts demo_lib (js ''k'') demo_iv demo_session \<and>
   decodeImapSession demo_lib (encodeImapSession demo_lib demo_session) = Inr demo_session \<and>
   decryptImapSession demo_lib (encryptImapSession demo_lib demo_iv demo_session (js ''k'')) (js ''k'')
     = Inr demo_session"
proof -
  have iv: "length demo_iv = 16" by (simp add: demo_iv_def)
  show ?thesis
    using session_roundtrip [OF demo_json_faithful iv demo_cipher_inverts [of "js ''k''"]]
      demo_json_faithful iv demo_cipher_inverts [of "js ''k''"]
    by simp
qed


section \<open>Token expiry\<close>








section \<open>Token uniqueness\<close>

text \<open>
  C4. Two calls of \<open>generateAccessToken\<close> for the same configuration and address that
  read the same millisecond from \<^verbatim>\<open>Date.now()\<close> return the same plaintext token,
  whatever random bytes the calls draw: the token is not unique per call.
\<close>

theorem plaintext_tokens_collide:
  "generateAccessToken demo_lib plain_env 1700000000000 demo_iv demo_config (js ''a@x.com'')
     = Inr (encodeImapSession demo_lib demo_session) \<and>
   generateAccessToken demo_lib plain_env 1700000000000 (rev demo_iv) demo_config (js ''a@x.com'')
     = Inr (encodeImapSession demo_lib demo_session)"
  by (simp add: generateAccessToken_def plain_env_def demo_session_def)


section \<open>The mailbox listing\<close>

lemma recipients_member:
  "(Some (toLowerCase L temp) \<in> set (allRecipients L e)) = addressed_to L temp e"
proof -
  have A: "allRecipients L e = map (\<lambda>a. map_option (toLowerCase L) (address a)) (recipient_addresses e)"
    by (simp add: allRecipients_def recipient_addresses_def lowered_addresses_def
        split: option.splits)
  have P: "(Some (toLowerCase L temp) = map_option (toLowerCase L) (address a)) =
           (case address a of None \<Rightarrow> False | Some s \<Rightarrow> toLowerCase L s = toLowerCase L temp)"
    for a :: Address
    by (cases "address a") auto
  have "(Some (toLowerCase L temp) \<in> set (allRecipients L e)) =
        (\<exists>a \<in> set (recipient_addresses e).
           Some (toLowerCase L temp) = map_option (toLowerCase L) (address a))"
    unfolding A by (simp add: image_iff)
  also have "\<dots> = (\<exists>a \<in> set (recipient_addresses e).
           case address a of None \<Rightarrow> False | Some s \<Rightarrow> toLowerCase L s = toLowerCase L temp)"
    by (simp only: P)
  finally show ?thesis
    by (simp add: addressed_to_def list_ex_iff)
qed

lemma collect_step:
  "collectMessages L since temp ((clock, msg) # rest) acc =
     (if survives L since temp (clock, msg)
      then collectMessages L since temp rest (acc @ [summary_of L (clock, msg)])
      else collectMessages L since temp rest acc)"
  by (simp add: recipients_member survives_def summary_of_def effective_date_def Let_def not_less)

lemma collect_filter:
  "collectMessages L since temp fetched acc =
     acc @ map (summary_of L) (filter (survives L since temp) fetched)"
proof (induction fetched arbitrary: acc)
  case Nil
  show ?case by simp
next
  case (Cons cm rest)
  obtain clock msg where cm: "cm = (clock, msg)" by (cases cm)
  show ?case
    unfolding cm collect_step by (simp add: Cons)
qed

lemma listing_cases:
  assumes "fetchRecentMessages L client now temp = Inr result"
  shows "(result = [] \<and>
          (search_since client (now - 86400000) = Inr None \<or>
           search_since client (now - 86400000) = Inr (Some []))) \<or>
         (\<exists>uids fetched.
            search_since client (now - 86400000) = Inr (Some uids) \<and> uids \<noteq> [] \<and>
            fetch client uids = Inr fetched \<and>
            result = sort_key (\<lambda>m. - receivedAt m)
                       (map (summary_of L) (filter (survives L (now - 86400000) temp) fetched)))"
  using assms
  by (auto simp: fetchRecentMessages_def Let_def collect_filter
      split: sum.splits option.splits if_splits)

lemma listing_origin:
  assumes "fetchRecentMessages L client now temp = Inr result" and "e \<in> set result"
  shows "\<exists>uids fetched cm.
           search_since client (now - 86400000) = Inr (Some uids) \<and>
           fetch client uids = Inr fetched \<and> cm \<in> set fetched \<and>
           survives L (now - 86400000) temp cm \<and> e = summary_of L cm"
proof -
  from listing_cases [OF assms(1)] assms(2) obtain uids fetched where
    s: "search_since client (now - 86400000) = Inr (Some uids)" "fetch client uids = Inr fetched"
    and r: "result = sort_key (\<lambda>m. - receivedAt m)
              (map (summary_of L) (filter (survives L (now - 86400000) temp) fetched))"
    by auto
  from assms(2) have "e \<in> summary_of L ` set (filter (survives L (now - 86400000) temp) fetched)"
    unfolding r by simp
  then obtain cm where "cm \<in> set fetched" "survives L (now - 86400000) temp cm" "e = summary_of L cm"
    by auto
  with s show ?thesis by blast
qed

lemma received_summary: "receivedAt (summary_of L cm) = effective_date (fst cm) (snd cm)"
  by (simp add: summary_of_def summarise_def)

lemma sorted_descending:
  "sorted_wrt (\<lambda>a b. receivedAt b \<le> receivedAt a) (sort_key (\<lambda>m. - receivedAt m) xs)"
proof -
  have "sorted (map (\<lambda>m. - receivedAt m) (sort_key (\<lambda>m. - receivedAt m) xs))"
    by (rule sorted_sort_key)
  then show ?thesis
    by (simp add: sorted_map)
qed

lemma demo_listing_value:
  "fetchRecentMessages demo_lib demo_client demo_now (js ''a@x.com'') = Inr demo_listing"
  by code_simp

lemma other_listing_value:
  "fetchRecentMessages demo_lib other_client demo_now (js ''a@x.com'') = Inr []"
  by code_simp

text \<open>
  C3. A fetched message is in the listing only if one of its To, Cc and Bcc addresses,
  in lower case, equals the temporary address in lower case; when no fetched message
  has such an address (a longer address that contains it, or one of the same domain,
  does not count) the listing is empty.
\<close>

theorem exact_recipient_filter:
  assumes "fetchRecentMessages L client now temp = Inr result"
  shows "(e \<in> set result \<longrightarrow>
            (\<exists>uids fetched clock msg.
               search_since client (now - 86400000) = Inr (Some uids) \<and>
               fetch client uids = Inr fetched \<and> (clock, msg) \<in> set fetched \<and>
               e = summarise L (effective_date clock msg) msg \<and>
               addressed_to L temp (envelope msg))) \<and>
         (search_since client (now - 86400000) = Inr (Some uids') \<and>
          fetch client uids' = Inr fetched' \<and>
          \<not> list_ex (\<lambda>cm. addressed_to L temp (envelope (snd cm))) fetched'
          \<longrightarrow> result = [])"
proof (intro conjI impI)
  assume "e \<in> set result"
  from listing_origin [OF assms this] obtain uids fetched cm where
    o: "search_since client (now - 86400000) = Inr (Some uids)" "fetch client uids = Inr fetched"
       "cm \<in> set fetched" "survives L (now - 86400000) temp cm" "e = summary_of L cm"
    by blast
  obtain clock msg where cm: "cm = (clock, msg)" by (cases cm)
  show "\<exists>uids fetched clock msg.
          search_since client (now - 86400000) = Inr (Some uids) \<and>
          fetch client uids = Inr fetched \<and> (clock, msg) \<in> set fetched \<and>
          e = summarise L (effective_date clock msg) msg \<and> addressed_to L temp (envelope msg)"
    using o unfolding cm by (auto simp: survives_def summary_of_def)
next
  assume h: "search_since client (now - 86400000) = Inr (Some uids') \<and>
      fetch client uids' = Inr fetched' \<and>
      \<not> list_ex (\<lambda>cm. addressed_to L temp (envelope (snd cm))) fetched'"
  then have "filter (survives L (now - 86400000) temp) fetched' = []"
    by (auto simp: filter_empty_conv survives_def list_ex_iff)
  then show "result = []"
    using listing_cases [OF assms] h by auto
qed

theorem exact_recipient_filter_witness:
  "(\<exists>uids fetched clock msg.
      search_since demo_client (demo_now - 86400000) = Inr (Some uids) \<and>
      fetch demo_client uids = Inr fetched \<and> (clock, msg) \<in> set fetched \<and>
      summarise demo_lib (demo_now - 500) demo_m3 = summarise demo_lib (effective_date clock msg) msg \<and>
      addressed_to demo_lib (js ''a@x.com'') (envelope msg)) \<and>
   fetchRecentMessages demo_lib other_client demo_now (js ''a@x.com'') = Inr []"
proof -
  have m: "summarise demo_lib (demo_now - 500) demo_m3 \<in> set demo_listing"
    by (simp add: demo_listing_def)
  have none: "\<not> list_ex (\<lambda>cm. addressed_to demo_lib (js ''a@x.com'') (envelope (snd cm))) other_fetched"
    by code_simp
  have other: "search_since other_client (demo_now - 86400000) = Inr (Some [2, 6])"
    "fetch other_client [2, 6] = Inr other_fetched"
    by (simp_all add: other_client_def)
  show ?thesis
    using exact_recipient_filter [OF demo_listing_value,
        of "summarise demo_lib (demo_now - 500) demo_m3" "[2, 6]" other_fetched]
      exact_recipient_filter [OF other_listing_value, of "summarise demo_lib 0 demo_m2" "[2, 6]" other_fetched]
      m none other other_listing_value
    by blast
qed

text \<open>
  C6. Every message of the listing has a receive date not older than the cutoff of 24
  hours before the call; the listing is in descending order of receive date; and it
  holds exactly the surviving messages of the fetch, none cut off.
\<close>

theorem listing_recent_sorted_complete:
  assumes "fetchRecentMessages L client now temp = Inr result"
  shows "list_all (\<lambda>e. now - 86400000 \<le> receivedAt e) result \<and>
         sorted_wrt (\<lambda>a b. receivedAt b \<le> receivedAt a) result \<and>
         (search_since client (now - 86400000) = Inr (Some uids) \<and> uids \<noteq> [] \<and>
          fetch client uids = Inr fetched \<longrightarrow>
            mset result = mset (map (summary_of L) (filter (survives L (now - 86400000) temp) fetched)) \<and>
            length result = length (filter (survives L (now - 86400000) temp) fetched))"
proof (intro conjI impI)
  show "list_all (\<lambda>e. now - 86400000 \<le> receivedAt e) result"
    unfolding list_all_iff
  proof
    fix e assume "e \<in> set result"
    from listing_origin [OF assms this] show "now - 86400000 \<le> receivedAt e"
      by (auto simp: survives_def received_summary)
  qed
  show "sorted_wrt (\<lambda>a b. receivedAt b \<le> receivedAt a) result"
    using listing_cases [OF assms] sorted_descending by auto
next
  assume h: "search_since client (now - 86400000) = Inr (Some uids) \<and> uids \<noteq> [] \<and>
      fetch client uids = Inr fetched"
  then have r: "result = sort_key (\<lambda>m. - receivedAt m)
      (map (summary_of L) (filter (survives L (now - 86400000) temp) fetched))"
    using listing_cases [OF assms] by auto
  show "mset result = mset (map (summary_of L) (filter (survives L (now - 86400000) temp) fetched))"
    unfolding r by simp
  show "length result = length (filter (survives L (now - 86400000) temp) fetched)"
    unfolding r by simp
qed

theorem listing_recent_sorted_complete_witness:
  "list_all (\<lambda>e. demo_now - 86400000 \<le> receivedAt e) demo_listing \<and>
   sorted_wrt (\<lambda>a b. receivedAt b \<le> receivedAt a) demo_listing \<and>
   mset demo_listing =
     mset (map (summary_of demo_lib) (filter (survives demo_lib (demo_now - 86400000) (js ''a@x.com'')) demo_fetched)) \<and>
   length demo_listing = 3 \<and>
   length (filter (survives demo_lib (demo_now - 86400000) (js ''a@x.com'')) demo_fetched) = 3"
proof -
  have s: "search_since demo_client (demo_now - 86400000) = Inr (Some [1, 2, 3, 4, 5])"
    "fetch demo_client [1, 2, 3, 4, 5] = Inr demo_fetched"
    by (simp_all add: demo_client_def)
  have "length demo_listing = 3" by (simp add: demo_listing_def)
  then show ?thesis
    using listing_recent_sorted_complete [OF demo_listing_value, of "[1, 2, 3, 4, 5]" demo_fetched] s
    by simp
qed

section \<open>The structure tree\<close>

lemma js_slash: "js ''/'' = [0x2F]"
  by (simp add: js_def)

lemma includes_single: "includes_str t [c] = (c \<in> set t)"
  by (induction t) auto

lemma startsWith_take: "startsWith s p = (take (length p) s = p)"
  by (induction s p rule: startsWith.induct) auto

lemma js_nonempty: "js (c # cs) \<noteq> []"
  by (simp add: js_def)

lemma str_or_lower: "str_or (map_option (toLowerCase L) v) [] = lower_text L v"
  by (simp add: str_or_def lower_text_def split: option.splits)

lemma fullType_normalized: "fullType_of L n = normalized_type L n"
  by (simp add: fullType_of_def normalized_type_def Let_def str_or_lower js_slash includes_single)

lemma multipart_test: "startsWith (fullType_of L n) (js ''multipart/'') = is_multipart L n"
proof -
  have "length (js ''multipart/'') = 10" by (simp add: js_def)
  then show ?thesis
    unfolding fullType_normalized startsWith_take is_multipart_def by simp
qed

lemma str_or_carried: "str_or v fallback = (case carried v of None \<Rightarrow> fallback | Some s \<Rightarrow> s)"
  by (simp add: str_or_def carried_def split: option.splits)

lemma truthy_carried: "truthy v = (carried v \<noteq> None)"
  by (simp add: truthy_def carried_def split: option.splits)

lemma path_default: "str_or (part n) (js ''1'') = path_or_default n"
  by (simp add: str_or_def path_or_default_def split: option.splits)

lemma path_truthy: "truthy (Some (path_or_default n))"
  by (simp add: truthy_def path_or_default_def js_def split: option.splits)

lemma find_append_cases:
  "find P (xs @ ys) = (case find P xs of None \<Rightarrow> find P ys | Some x \<Rightarrow> Some x)"
  by (induction xs) simp_all

lemma found_truthy: "truthy (map_option path_or_default r) = (r \<noteq> None)"
  using path_truthy by (cases r) (simp_all add: truthy_def)

lemma findBodyPart_visit:
  "findBodyPart_node L n m =
     map_option path_or_default (find (\<lambda>x. normalized_type L x = toLowerCase L m) (visit L n))"
  "findBodyPart_children L cs m =
     map_option path_or_default
       (find (\<lambda>x. normalized_type L x = toLowerCase L m) (visit_children L cs))"
proof (induction L n m and L cs m rule: findBodyPart_node_findBodyPart_children.induct)
  case (1 L ty sub prt disp fname pname sz cid kids mimeType)
  let ?n = "BodyStructure ty sub prt disp fname pname sz cid kids"
  have p: "str_or prt (js ''1'') = path_or_default ?n"
    using path_default [of ?n] by simp
  show ?case
  proof (cases "normalized_type L ?n = toLowerCase L mimeType")
    case True
    then show ?thesis by (simp add: Let_def fullType_normalized p)
  next
    case False
    show ?thesis
    proof (cases "is_multipart L ?n")
      case no: False
      then show ?thesis
        using False multipart_test [of L ?n] by (simp add: Let_def fullType_normalized)
    next
      case yes: True
      show ?thesis
      proof (cases kids)
        case None
        then show ?thesis
          using False yes multipart_test [of L ?n] by (simp add: Let_def fullType_normalized)
      next
        case (Some children)
        have m: "startsWith (fullType_of L ?n) (js ''multipart/'')"
          using yes multipart_test [of L ?n] by simp
        have f: "fullType_of L ?n \<noteq> toLowerCase L mimeType"
          using False by (simp add: fullType_normalized)
        have "findBodyPart_children L children mimeType =
              map_option path_or_default
                (find (\<lambda>x. normalized_type L x = toLowerCase L mimeType)
                   (visit_children L children))"
          using "1.IH" [OF refl f m Some] .
        then show ?thesis
          using False yes Some m f by (simp add: Let_def)
      qed
    qed
  qed
next
  case (2 L mimeType)
  show ?case by simp
next
  case (3 L childNode rest mimeType)
  then show ?case
    by (simp add: find_append_cases found_truthy Let_def split: option.splits)
qed

lemma classified_iff: "(is_attachment L n \<and> \<not> is_text_content L n) = classified L n"
  by (cases "disposition n")
    (simp_all add: classified_def is_attachment_def is_text_content_def Let_def
      fullType_normalized truthy_carried lower_text_def js_def)

lemma entry_spec: "attachment_entry L n k = spec_entry L n k"
  by (cases "disposition n")
    (simp_all add: attachment_entry_def spec_entry_def fullType_normalized str_or_carried
      lower_text_def js_def split: option.splits)

lemma pushed_entry:
  "(if is_attachment L n \<and> \<not> is_text_content L n
    then acc @ [attachment_entry L n (length acc)] else acc) = append_entry L n acc"
  by (simp only: append_entry_def classified_iff entry_spec)

lemma findAttachments_visit:
  "findAttachments_node L n acc = fold (append_entry L) (visit L n) acc"
  "findAttachments_children L cs acc = fold (append_entry L) (visit_children L cs) acc"
proof (induction L n acc and L cs acc rule: findAttachments_node_findAttachments_children.induct)
  case (1 L ty sub prt disp fname pname sz cid kids attachments')
  let ?n = "BodyStructure ty sub prt disp fname pname sz cid kids"
  show ?case
  proof (cases "is_multipart L ?n")
    case False
    then have "\<not> startsWith (fullType_of L ?n) (js ''multipart/'')"
      using multipart_test [of L ?n] by simp
    then show ?thesis using False by (simp add: Let_def pushed_entry)
  next
    case True
    then have m: "startsWith (fullType_of L ?n) (js ''multipart/'')"
      using multipart_test [of L ?n] by simp
    show ?thesis
    proof (cases kids)
      case None
      then show ?thesis using True m by (simp add: Let_def pushed_entry)
    next
      case (Some children)
      have "findAttachments_children L children (append_entry L ?n attachments') =
            fold (append_entry L) (visit_children L children) (append_entry L ?n attachments')"
        using "1.IH" [OF refl refl m Some] by (simp only: pushed_entry)
      then show ?thesis using True m Some by (simp add: Let_def pushed_entry)
    qed
  qed
next
  case (2 L attachments')
  show ?case by simp
next
  case (3 L childNode rest attachments')
  then show ?case by simp
qed

text \<open>
  C7. \<open>findBodyPart\<close> is the search the specification describes: it returns the part
  path (or the default path \<open>1\<close>) of the first node, in depth-first order, whose
  normalized type equals the target in lower case, and nothing when no visited node
  matches; the search goes below a node only when the node's normalized type starts with
  \<open>multipart/\<close>. The type the code compares is the normalized type: the node's type in
  lower case if that contains a slash, otherwise type, slash and subtype in lower case
  (the type alone when there is no subtype).
\<close>

theorem findBodyPart_first_match:
  "findBodyPart L structure mimeType =
     (case structure of
        None \<Rightarrow> None
      | Some root \<Rightarrow> spec_findPart L root mimeType) \<and>
   fullType_of L n = normalized_type L n \<and>
   normalized_type L n =
     (if 0x2F \<in> set (lower_text L (node_type n)) then lower_text L (node_type n)
      else if lower_text L (subtype n) = [] then lower_text L (node_type n)
      else lower_text L (node_type n) @ js ''/'' @ lower_text L (subtype n))"
  by (simp add: findBodyPart_def spec_findPart_def findBodyPart_visit fullType_normalized
      normalized_type_def js_slash split: option.splits)

theorem findBodyPart_first_match_witness:
  "findBodyPart demo_lib (Some demo_structure) (js ''text/plain'') = Some (js ''1.1'') \<and>
   findBodyPart demo_lib (Some demo_structure) (js ''Text/HTML'') = Some (js ''1.2'') \<and>
   findBodyPart demo_lib (Some demo_structure) (js ''image/png'') = None \<and>
   findBodyPart demo_lib (Some demo_odd) (js ''multipart/x'') = Some (js ''1'') \<and>
   findBodyPart demo_lib (Some demo_odd) (js ''TEXT'') = Some (js ''1'') \<and>
   findBodyPart demo_lib (Some demo_odd) (js ''text/'') = None \<and>
   findBodyPart demo_lib (Some demo_odd) (js ''/plain'') = Some (js ''7'') \<and>
   findBodyPart demo_lib (Some demo_odd) (js ''text/calendar'') = Some (js ''4'') \<and>
   map (fullType_of demo_lib) (visit demo_lib demo_odd) =
     [js ''multipart/x'', js ''text'', js ''/plain'', js ''text/html'', js ''text/calendar'']"
proof -
  have "spec_findPart demo_lib demo_structure (js ''text/plain'') = Some (js ''1.1'')"
    "spec_findPart demo_lib demo_structure (js ''Text/HTML'') = Some (js ''1.2'')"
    "spec_findPart demo_lib demo_structure (js ''image/png'') = None"
    "spec_findPart demo_lib demo_odd (js ''multipart/x'') = Some (js ''1'')"
    "spec_findPart demo_lib demo_odd (js ''TEXT'') = Some (js ''1'')"
    "spec_findPart demo_lib demo_odd (js ''text/'') = None"
    "spec_findPart demo_lib demo_odd (js ''/plain'') = Some (js ''7'')"
    "spec_findPart demo_lib demo_odd (js ''text/calendar'') = Some (js ''4'')"
    by code_simp+
  moreover have "map (normalized_type demo_lib) (visit demo_lib demo_odd) =
     [js ''multipart/x'', js ''text'', js ''/plain'', js ''text/html'', js ''text/calendar'']"
    by code_simp
  moreover have "fullType_of demo_lib = normalized_type demo_lib"
    using findBodyPart_first_match [THEN conjunct2, THEN conjunct1, of demo_lib] by (rule ext)
  ultimately show ?thesis
    using findBodyPart_first_match [THEN conjunct1, of demo_lib "Some demo_structure" "js ''text/plain''"]
      findBodyPart_first_match [THEN conjunct1, of demo_lib "Some demo_structure" "js ''Text/HTML''"]
      findBodyPart_first_match [THEN conjunct1, of demo_lib "Some demo_structure" "js ''image/png''"]
      findBodyPart_first_match [THEN conjunct1, of demo_lib "Some demo_odd" "js ''multipart/x''"]
      findBodyPart_first_match [THEN conjunct1, of demo_lib "Some demo_odd" "js ''TEXT''"]
      findBodyPart_first_match [THEN conjunct1, of demo_lib "Some demo_odd" "js ''text/''"]
      findBodyPart_first_match [THEN conjunct1, of demo_lib "Some demo_odd" "js ''/plain''"]
      findBodyPart_first_match [THEN conjunct1, of demo_lib "Some demo_odd" "js ''text/calendar''"]
    by simp
qed

text \<open>
  C8. \<open>findAttachments\<close> is the collection the specification describes: it appends to
  the accumulator one entry for every visited node that is classified as an attachment
  (its disposition is \<open>attachment\<close> or \<open>inline\<close>, or it has a file name in the
  disposition parameters or as the \<open>name\<close> parameter, and its normalized type is neither
  \<open>text/plain\<close> nor \<open>text/html\<close>). The nodes are visited depth first, below every
  \<open>multipart/\<close> node, whether or not the node itself was classified. The entry pushed
  when the accumulator holds \<open>k\<close> entries has as id the node's part path, or the number
  \<open>k + 1\<close> when the node carries none; as file name the disposition's file name, else the
  name parameter, else \<open>attachment-\<close> and the number \<open>k + 1\<close>; the normalized type as
  content type; the node's size, or 0; the inline flag; and the node's content id.
\<close>

theorem findAttachments_collects:
  "findAttachments L structure acc =
     (case structure of
        None \<Rightarrow> acc
      | Some root \<Rightarrow> spec_findAttachments L root acc) \<and>
   (is_attachment L n \<and> \<not> is_text_content L n) = classified L n \<and>
   attachment_entry L n k = spec_entry L n k"
  by (simp add: findAttachments_def spec_findAttachments_def findAttachments_visit
      classified_iff entry_spec split: option.splits)

theorem findAttachments_collects_witness:
  "findAttachments demo_lib (Some demo_structure) [] =
     [\<lparr>att_id = js ''2'', filename = js ''doc.pdf'', contentType = js ''application/pdf'',
       att_size = 1234, inline = False, contentId = None\<rparr>] \<and>
   findAttachments demo_lib (Some demo_attachments) [] =
     [\<lparr>att_id = js ''1'', filename = js ''attachment-1'', contentType = js ''multipart/related'',
       att_size = 0, inline = True, contentId = None\<rparr>,
      \<lparr>att_id = js ''1.1'', filename = js ''logo.png'', contentType = js ''image/png'',
       att_size = 10, inline = False, contentId = Some (js ''<cid1>'')\<rparr>,
      \<lparr>att_id = js ''3'', filename = js ''attachment-3'',
       contentType = js ''application/octet-stream'',
       att_size = 0, inline = True, contentId = None\<rparr>,
      \<lparr>att_id = js ''2'', filename = js ''doc.pdf'', contentType = js ''application/pdf'',
       att_size = 1234, inline = False, contentId = None\<rparr>]"
proof -
  have "spec_findAttachments demo_lib demo_structure [] =
     [\<lparr>att_id = js ''2'', filename = js ''doc.pdf'', contentType = js ''application/pdf'',
       att_size = 1234, inline = False, contentId = None\<rparr>]"
    by code_simp
  moreover have "spec_findAttachments demo_lib demo_attachments [] =
     [\<lparr>att_id = js ''1'', filename = js ''attachment-1'', contentType = js ''multipart/related'',
       att_size = 0, inline = True, contentId = None\<rparr>,
      \<lparr>att_id = js ''1.1'', filename = js ''logo.png'', contentType = js ''image/png'',
       att_size = 10, inline = False, contentId = Some (js ''<cid1>'')\<rparr>,
      \<lparr>att_id = js ''3'', filename = js ''attachment-3'',
       contentType = js ''application/octet-stream'',
       att_size = 0, inline = True, contentId = None\<rparr>,
      \<lparr>att_id = js ''2'', filename = js ''doc.pdf'', contentType = js ''application/pdf'',
       att_size = 1234, inline = False, contentId = None\<rparr>]"
    by code_simp
  ultimately show ?thesis
    using findAttachments_collects [THEN conjunct1, of demo_lib "Some demo_structure" "[]"]
      findAttachments_collects [THEN conjunct1, of demo_lib "Some demo_attachments" "[]"]
    by simp
qed

section \<open>The public operations\<close>

lemma parse_plain_token:
  assumes "json_faithful L S"
    and "IMAP_ENCRYPT_TOKEN env \<noteq> Some (js ''true'')"
    and "validateTokenExpiration L env now S = Inr ()"
  shows "parseAccessToken L env now (encodeImapSession L S) = Inr S"
  using assms by (simp add: parseAccessToken_def decode_encode)

lemma no_ttl_configured: "configured_ttl demo_lib plain_env = Num 0"
  by code_simp

lemma demo_plain_token:
  "parseAccessToken demo_lib plain_env now (encodeImapSession demo_lib demo_session)
     = Inr demo_session"
proof -
  have "validateTokenExpiration demo_lib plain_env now demo_session = Inr ()"
    by (simp add: validateTokenExpiration_def no_ttl_configured jsnum_le_def)
  moreover have "IMAP_ENCRYPT_TOKEN plain_env \<noteq> Some (js ''true'')"
    by (simp add: plain_env_def)
  ultimately show ?thesis
    by (simp add: parse_plain_token [OF demo_json_faithful])
qed

lemma base64_encode_nonempty: "bs \<noteq> [] \<Longrightarrow> base64_encode bs \<noteq> []"
proof
  assume "bs \<noteq> []" and "base64_encode bs = []"
  then have "base64_decode [] = bs"
    using base64_roundtrip [of bs] by simp
  then show False
    using \<open>bs \<noteq> []\<close> by (simp add: base64_decode_def sextets_nil)
qed

lemma plain_token_truthy: "truthy (Some (encodeImapSession demo_lib demo_session))"
proof -
  have "demo_utf8_encode (json_session demo_session) \<noteq> []"
    by (simp add: json_session_def demo_utf8_encode_def js_def)
  then have "encodeImapSession demo_lib demo_session \<noteq> []"
    by (simp add: encodeImapSession_def demo_lib_def base64_encode_nonempty)
  then show ?thesis by (simp add: truthy_def)
qed

lemma str_or_nonempty: "fallback \<noteq> [] \<Longrightarrow> str_or v fallback \<noteq> []"
  by (simp add: str_or_def split: option.splits)

lemma contact_email_nonempty: "email (parseEmailContact a) \<noteq> []"
  by (cases a) (simp_all add: parseEmailContact_def unknown_email_def str_or_nonempty js_def)

lemma summary_sender: "email (msg_from (summarise L d msg)) \<noteq> []"
  by (simp add: summarise_def contact_email_nonempty)

lemma getEmails_success:
  assumes "getEmails L env connect t0 now tok = Success msgs"
  shows "\<exists>client temp. fetchRecentMessages L client now temp = Inr msgs"
  using assms
  by (auto simp: getEmails_def Let_def split: if_splits sum.splits)

lemma content_sender:
  assumes "fetchMessageContent L client clock pes emailId = Inr m"
  shows "email (msg_from m) \<noteq> []"
  using assms
  by (auto simp: fetchMessageContent_def Let_def summary_sender split: sum.splits option.splits)

lemma getEmailContent_success:
  assumes "getEmailContent L env connect t0 clock pes ea emailId tok = Success m"
  shows "\<exists>client. fetchMessageContent L client clock pes emailId = Inr m"
  using assms
  by (auto simp: getEmailContent_def Let_def split: if_splits sum.splits)

lemma demo_getEmails:
  "getEmails demo_lib plain_env demo_connect demo_now demo_now
     (Some (encodeImapSession demo_lib demo_session)) = Success demo_listing"
proof -
  have "mailboxOpen demo_client (js ''INBOX'') = Inr ()"
    by (simp add: demo_client_def)
  moreover have "str_or (imap_dir (imapConfig demo_session)) (js ''INBOX'') = js ''INBOX''"
    "tempEmailAddress demo_session = js ''a@x.com''"
    by (simp_all add: demo_session_def demo_config_def str_or_def)
  ultimately show ?thesis
    using plain_token_truthy
    by (simp add: getEmails_def Let_def demo_plain_token demo_connect_def demo_listing_value
        str_or_def)
qed

lemma demo_content_5:
  "fetchMessageContent demo_lib demo_client demo_now no_source_parser (js ''5'')
     = Inr ((summarise demo_lib demo_now demo_m5)\<lparr>msg_id := js ''5''\<rparr>)"
  by code_simp

lemma demo_getEmailContent:
  "getEmailContent demo_lib plain_env demo_connect demo_now demo_now no_source_parser
     (js ''a@x.com'') (js ''5'') (Some (encodeImapSession demo_lib demo_session))
     = Success ((summarise demo_lib demo_now demo_m5)\<lparr>msg_id := js ''5''\<rparr>)"
proof -
  have "mailboxOpen demo_client (js ''INBOX'') = Inr ()"
    by (simp add: demo_client_def)
  moreover have "str_or (imap_dir (imapConfig demo_session)) (js ''INBOX'') = js ''INBOX''"
    by (simp add: demo_session_def demo_config_def str_or_def)
  ultimately show ?thesis
    using plain_token_truthy
    by (simp add: getEmailContent_def Let_def demo_plain_token demo_connect_def demo_content_5
        str_or_def)
qed

text \<open>
  C10. \<open>parseEmailContact\<close> is total over missing envelope data: without a sender entry,
  or with an entry that has no address, it gives the placeholder address, and its
  \<open>email\<close> is never empty. So every message that \<open>getEmails\<close> or \<open>getEmailContent\<close>
  returns has a non-empty \<open>from.email\<close>.
\<close>

theorem sender_never_empty:
  "parseEmailContact None = \<lparr>email = js ''unknown@unknown.com'', contact_name = None\<rparr> \<and>
   parseEmailContact (Some \<lparr>name = n, address = None\<rparr>)
     = \<lparr>email = js ''unknown@unknown.com'', contact_name = n\<rparr> \<and>
   email (parseEmailContact a) \<noteq> [] \<and>
   (getEmails L env connect t0 now tok = Success msgs \<and> m \<in> set msgs
      \<longrightarrow> email (msg_from m) \<noteq> []) \<and>
   (getEmailContent L' env' connect' t1 clock pes ea emailId tok' = Success m'
      \<longrightarrow> email (msg_from m') \<noteq> [])"
proof (intro conjI impI)
  show "parseEmailContact None = \<lparr>email = js ''unknown@unknown.com'', contact_name = None\<rparr>"
    by (simp add: parseEmailContact_def unknown_email_def)
  show "parseEmailContact (Some \<lparr>name = n, address = None\<rparr>)
     = \<lparr>email = js ''unknown@unknown.com'', contact_name = n\<rparr>"
    by (simp add: parseEmailContact_def unknown_email_def str_or_def)
  show "email (parseEmailContact a) \<noteq> []"
    by (rule contact_email_nonempty)
next
  assume h: "getEmails L env connect t0 now tok = Success msgs \<and> m \<in> set msgs"
  then obtain client temp where "fetchRecentMessages L client now temp = Inr msgs"
    using getEmails_success by blast
  from listing_origin [OF this] h obtain cm where "m = summary_of L cm"
    by blast
  then show "email (msg_from m) \<noteq> []"
    by (simp add: summary_of_def summary_sender)
next
  assume "getEmailContent L' env' connect' t1 clock pes ea emailId tok' = Success m'"
  then obtain client where "fetchMessageContent L' client clock pes emailId = Inr m'"
    using getEmailContent_success by blast
  then show "email (msg_from m') \<noteq> []"
    by (rule content_sender)
qed

theorem sender_never_empty_witness:
  "getEmails demo_lib plain_env demo_connect demo_now demo_now
     (Some (encodeImapSession demo_lib demo_session)) = Success demo_listing \<and>
   env_from (envelope demo_m5) = None \<and>
   summarise demo_lib (demo_now + 5) demo_m5 \<in> set demo_listing \<and>
   email (msg_from (summarise demo_lib (demo_now + 5) demo_m5)) \<noteq> [] \<and>
   getEmailContent demo_lib plain_env demo_connect demo_now demo_now no_source_parser
     (js ''a@x.com'') (js ''5'') (Some (encodeImapSession demo_lib demo_session))
     = Success ((summarise demo_lib demo_now demo_m5)\<lparr>msg_id := js ''5''\<rparr>) \<and>
   email (msg_from ((summarise demo_lib demo_now demo_m5)\<lparr>msg_id := js ''5''\<rparr>)) \<noteq> []"
proof -
  have a: "env_from (envelope demo_m5) = None"
    by (simp add: demo_m5_def demo_message_def)
  have b: "summarise demo_lib (demo_now + 5) demo_m5 \<in> set demo_listing"
    by (simp add: demo_listing_def)
  show ?thesis
    using sender_never_empty
      [of None None demo_lib plain_env demo_connect demo_now demo_now
        "Some (encodeImapSession demo_lib demo_session)" demo_listing
        "summarise demo_lib (demo_now + 5) demo_m5"
        demo_lib plain_env demo_connect demo_now demo_now no_source_parser "js ''a@x.com''" "js ''5''"
        "Some (encodeImapSession demo_lib demo_session)"
        "(summarise demo_lib demo_now demo_m5)\<lparr>msg_id := js ''5''\<rparr>"]
      demo_getEmails demo_getEmailContent a b
    by blast
qed

section \<open>A message that is not found\<close>

lemma demo_missing:
  "fetchMessageContent demo_lib demo_client demo_now no_source_parser (js ''999'')
     = Inl (Error (msg_not_found (js ''999'')))"
  "fetchMessageContent demo_lib demo_client demo_now no_source_parser (js ''abc'')
     = Inl (Error (msg_not_found (js ''abc'')))"
  by code_simp+

lemma not_found_class:
  "handleError (Error (msg_not_found (js ''999''))) (js ''getEmailContent'')
     = \<lparr>err_message = msg_not_found (js ''999''), err_type = UNKNOWN_ERROR, retryable = False,
        err_details = None\<rparr>"
  "handleError (Error (msg_not_found (js ''abc''))) (js ''getEmailContent'')
     = \<lparr>err_message = msg_not_found (js ''abc''), err_type = UNKNOWN_ERROR, retryable = False,
        err_details = None\<rparr>"
  by code_simp+

text \<open>
  C9. For an identifier that no message has (\<open>999\<close>) and for one that is not a number
  (\<open>abc\<close>, for which the client finds nothing either), \<open>getEmailContent\<close> fails, and
  \<open>handleError\<close> classifies the failure as \<open>UNKNOWN_ERROR\<close> with no details: the
  not-found error has no branch of its own and is not an \<open>API_ERROR\<close>.
\<close>

theorem missing_message_unclassified:
  "getEmailContent demo_lib plain_env demo_connect demo_now demo_now no_source_parser
     (js ''a@x.com'') (js ''999'') (Some (encodeImapSession demo_lib demo_session))
     = Failure \<lparr>err_message = msg_not_found (js ''999''), err_type = UNKNOWN_ERROR,
                retryable = False, err_details = None\<rparr> \<and>
   getEmailContent demo_lib plain_env demo_connect demo_now demo_now no_source_parser
     (js ''a@x.com'') (js ''abc'') (Some (encodeImapSession demo_lib demo_session))
     = Failure \<lparr>err_message = msg_not_found (js ''abc''), err_type = UNKNOWN_ERROR,
                retryable = False, err_details = None\<rparr>"
proof -
  have "mailboxOpen demo_client (js ''INBOX'') = Inr ()"
    by (simp add: demo_client_def)
  moreover have "str_or (imap_dir (imapConfig demo_session)) (js ''INBOX'') = js ''INBOX''"
    by (simp add: demo_session_def demo_config_def str_or_def)
  ultimately show ?thesis
    using plain_token_truthy
    by (simp add: getEmailContent_def Let_def demo_plain_token demo_connect_def demo_missing
        not_found_class str_or_def)
qed

section \<open>Altered tokens\<close>




















end
